theory Spec2Isabelle
  imports Main
begin

section \<open>JavaScript values and text helpers\<close>

text \<open>
  The validator tests its two arguments with \<^verbatim>\<open>!v || typeof v !== 'string'\<close>, so the
  arguments are modelled as run-time values, not only as strings. Strings are lists of
  8-bit characters; numbers are the integral ones.
\<close>

datatype jsval = JUndefined | JNull | JBool bool | JNum int | JStr string

fun truthy :: "jsval \<Rightarrow> bool" where
  "truthy JUndefined = False"
| "truthy JNull = False"
| "truthy (JBool b) = b"
| "truthy (JNum n) = (n \<noteq> 0)"
| "truthy (JStr s) = (s \<noteq> [])"

fun is_string :: "jsval \<Rightarrow> bool" where
  "is_string (JStr s) = True"
| "is_string v = False"

text \<open>
  \<open>checked_string v\<close> is \<open>None\<close> exactly when \<^verbatim>\<open>!v || typeof v !== 'string'\<close> holds
  (lemma \<open>checked_string_None\<close> below), and otherwise the string that \<open>v\<close> is.
\<close>

fun checked_string :: "jsval \<Rightarrow> string option" where
  "checked_string (JStr s) = (if s = [] then None else Some s)"
| "checked_string v = None"

text \<open>A nullable string used as a condition: \<^verbatim>\<open>if (x)\<close> with \<^verbatim>\<open>x: string | null\<close>.\<close>

fun truthy_str :: "string option \<Rightarrow> bool" where
  "truthy_str None = False"
| "truthy_str (Some s) = (s \<noteq> [])"

text \<open>Decimal rendering of a number inside a template string.\<close>

fun string_of_nat :: "nat \<Rightarrow> string" where
  "string_of_nat n =
     (if n < 10 then [''0123456789'' ! n]
      else string_of_nat (n div 10) @ [''0123456789'' ! (n mod 10)])"

declare string_of_nat.simps [simp del]

definition string_of_int :: "int \<Rightarrow> string" where
  "string_of_int i = (if i < 0 then ''-'' @ string_of_nat (nat (- i)) else string_of_nat (nat i))"

text \<open>\<^verbatim>\<open>xs.join(sep)\<close>\<close>

fun join :: "string \<Rightarrow> string list \<Rightarrow> string" where
  "join sep [] = []"
| "join sep [x] = x"
| "join sep (x # y # ys) = x @ sep @ join sep (y # ys)"

section \<open>Authentication error taxonomy (auth/errors.ts)\<close>

datatype AuthErrorCode =
    INVALID_API_KEY_FORMAT
  | API_KEY_NOT_FOUND
  | API_KEY_REVOKED
  | API_KEY_EXPIRED
  | INVALID_INBOX_ID_FORMAT
  | INBOX_NOT_FOUND
  | INBOX_DISABLED
  | INBOX_SUSPENDED
  | INBOX_ORG_MISMATCH
  | INSUFFICIENT_PERMISSIONS
  | DATABASE_ERROR
  | RATE_LIMITED
  | SERVICE_UNAVAILABLE

text \<open>
  \<^verbatim>\<open>AuthErrorDefinition = Omit<AuthError, 'logMessage'>\<close>: the three reply fields that
  every table of the server shares, then the code, then (in \<open>AuthError\<close>) the log message.
\<close>

record SMTPReply =
  smtpCode :: int
  enhancedCode :: string
  message :: string

record AuthErrorDefinition = SMTPReply +
  code :: AuthErrorCode

record AuthError = AuthErrorDefinition +
  logMessage :: string

fun AUTH_ERRORS :: "AuthErrorCode \<Rightarrow> AuthErrorDefinition" where
  "AUTH_ERRORS INVALID_API_KEY_FORMAT =
     \<lparr>smtpCode = 535, enhancedCode = ''5.7.8'',
      message = ''Authentication credentials invalid'', code = INVALID_API_KEY_FORMAT\<rparr>"
| "AUTH_ERRORS API_KEY_NOT_FOUND =
     \<lparr>smtpCode = 535, enhancedCode = ''5.7.8'',
      message = ''Authentication credentials invalid'', code = API_KEY_NOT_FOUND\<rparr>"
| "AUTH_ERRORS API_KEY_REVOKED =
     \<lparr>smtpCode = 535, enhancedCode = ''5.7.8'',
      message = ''Authentication credentials invalid'', code = API_KEY_REVOKED\<rparr>"
| "AUTH_ERRORS API_KEY_EXPIRED =
     \<lparr>smtpCode = 535, enhancedCode = ''5.7.8'',
      message = ''Authentication credentials invalid'', code = API_KEY_EXPIRED\<rparr>"
| "AUTH_ERRORS INVALID_INBOX_ID_FORMAT =
     \<lparr>smtpCode = 535, enhancedCode = ''5.7.8'',
      message = ''Authentication credentials invalid'', code = INVALID_INBOX_ID_FORMAT\<rparr>"
| "AUTH_ERRORS INBOX_NOT_FOUND =
     \<lparr>smtpCode = 535, enhancedCode = ''5.7.8'',
      message = ''Authentication credentials invalid'', code = INBOX_NOT_FOUND\<rparr>"
| "AUTH_ERRORS INBOX_DISABLED =
     \<lparr>smtpCode = 535, enhancedCode = ''5.7.8'',
      message = ''Authentication credentials invalid'', code = INBOX_DISABLED\<rparr>"
| "AUTH_ERRORS INBOX_SUSPENDED =
     \<lparr>smtpCode = 535, enhancedCode = ''5.7.8'',
      message = ''Account suspended - contact support'', code = INBOX_SUSPENDED\<rparr>"
| "AUTH_ERRORS INBOX_ORG_MISMATCH =
     \<lparr>smtpCode = 535, enhancedCode = ''5.7.8'',
      message = ''Authentication credentials invalid'', code = INBOX_ORG_MISMATCH\<rparr>"
| "AUTH_ERRORS INSUFFICIENT_PERMISSIONS =
     \<lparr>smtpCode = 535, enhancedCode = ''5.7.8'',
      message = ''Insufficient permissions for SMTP access'', code = INSUFFICIENT_PERMISSIONS\<rparr>"
| "AUTH_ERRORS DATABASE_ERROR =
     \<lparr>smtpCode = 454, enhancedCode = ''4.7.0'',
      message = ''Temporary authentication failure, please retry'', code = DATABASE_ERROR\<rparr>"
| "AUTH_ERRORS RATE_LIMITED =
     \<lparr>smtpCode = 454, enhancedCode = ''4.7.0'',
      message = ''Too many authentication attempts, please retry later'', code = RATE_LIMITED\<rparr>"
| "AUTH_ERRORS SERVICE_UNAVAILABLE =
     \<lparr>smtpCode = 454, enhancedCode = ''4.7.0'',
      message = ''Authentication service temporarily unavailable'', code = SERVICE_UNAVAILABLE\<rparr>"

definition createAuthError :: "AuthErrorCode \<Rightarrow> string \<Rightarrow> AuthError" where
  "createAuthError errorCode logMsg =
     (let definition = AUTH_ERRORS errorCode in
      \<lparr>smtpCode = smtpCode definition, enhancedCode = enhancedCode definition,
       message = message definition, code = code definition, logMessage = logMsg\<rparr>)"

text \<open>
  An \<^verbatim>\<open>Error\<close> object carrying a reply: \<^verbatim>\<open>createSMTPAuthError\<close> (auth/errors.ts) and
  \<^verbatim>\<open>createSMTPError\<close> (errors/mapping.ts) build the same shape.
\<close>

record SMTPError =
  errorText :: string
  responseCode :: int
  errorEnhancedCode :: string

definition createSMTPError :: "int \<Rightarrow> string \<Rightarrow> string \<Rightarrow> SMTPError" where
  "createSMTPError c ec msg =
     \<lparr>errorText = string_of_int c @ '' '' @ ec @ '' '' @ msg,
      responseCode = c, errorEnhancedCode = ec\<rparr>"

definition createSMTPAuthError :: "AuthError \<Rightarrow> SMTPError" where
  "createSMTPAuthError error =
     \<lparr>errorText = string_of_int (smtpCode error) @ '' '' @ enhancedCode error @ '' '' @ message error,
      responseCode = smtpCode error, errorEnhancedCode = enhancedCode error\<rparr>"

record AuthenticatedUser =
  inbox_id :: string
  organization_id :: string
  email_address :: string
  api_key_id :: string

datatype AuthResult = Success AuthenticatedUser | Failure AuthError

section \<open>The credential store (mock/database.ts)\<close>

datatype InboxStatus = active | disabled | suspended

record MockInbox =
  inbox_inbox_id :: string
  inbox_email_address :: string
  inbox_organization_id :: string
  status :: InboxStatus
  display_name :: "string option"
  inbox_created_at :: string

record MockApiKey =
  key_api_key_id :: string
  key_organization_id :: string
  revoked_at :: "string option"
  expires_at :: "string option"
  scopes :: "string list"
  name :: string
  key_created_at :: string

definition MOCK_INBOXES :: "string \<rightharpoonup> MockInbox" where
  "MOCK_INBOXES = map_of
    [(''inb_valid1234567890'',
        \<lparr>inbox_inbox_id = ''inb_valid1234567890'', inbox_email_address = ''test@agentmail.dev'',
         inbox_organization_id = ''org_abc'', status = active,
         display_name = Some ''Test Inbox'', inbox_created_at = ''2024-01-01T00:00:00Z''\<rparr>),
     (''inb_disabled456789012'',
        \<lparr>inbox_inbox_id = ''inb_disabled456789012'', inbox_email_address = ''disabled@agentmail.dev'',
         inbox_organization_id = ''org_abc'', status = disabled,
         display_name = Some ''Disabled Inbox'', inbox_created_at = ''2024-01-01T00:00:00Z''\<rparr>),
     (''inb_suspended78901234'',
        \<lparr>inbox_inbox_id = ''inb_suspended78901234'', inbox_email_address = ''suspended@agentmail.dev'',
         inbox_organization_id = ''org_abc'', status = suspended,
         display_name = Some ''Suspended Inbox'', inbox_created_at = ''2024-01-01T00:00:00Z''\<rparr>)]"

definition MOCK_API_KEYS :: "string \<rightharpoonup> MockApiKey" where
  "MOCK_API_KEYS = map_of
    [(''am_validkey12345678901234567890123456'',
        \<lparr>key_api_key_id = ''key_valid_1'', key_organization_id = ''org_abc'',
         revoked_at = None, expires_at = None,
         scopes = [''smtp:send'', ''messages:read'', ''messages:write''],
         name = ''Production API Key'', key_created_at = ''2024-01-01T00:00:00Z''\<rparr>),
     (''am_wrongorg45678901234567890123456789'',
        \<lparr>key_api_key_id = ''key_wrongorg_2'', key_organization_id = ''org_xyz'',
         revoked_at = None, expires_at = None, scopes = [''smtp:send''],
         name = ''Other Org API Key'', key_created_at = ''2024-01-01T00:00:00Z''\<rparr>),
     (''am_revoked78901234567890123456789012'',
        \<lparr>key_api_key_id = ''key_revoked_3'', key_organization_id = ''org_abc'',
         revoked_at = Some ''2024-12-01T00:00:00Z'', expires_at = None, scopes = [''smtp:send''],
         name = ''Revoked API Key'', key_created_at = ''2024-01-01T00:00:00Z''\<rparr>),
     (''am_expired12345678901234567890123456'',
        \<lparr>key_api_key_id = ''key_expired_4'', key_organization_id = ''org_abc'',
         revoked_at = None, expires_at = Some ''2024-01-01T00:00:00Z'', scopes = [''smtp:send''],
         name = ''Expired API Key'', key_created_at = ''2023-01-01T00:00:00Z''\<rparr>),
     (''am_noscope12345678901234567890123456'',
        \<lparr>key_api_key_id = ''key_noscope_5'', key_organization_id = ''org_abc'',
         revoked_at = None, expires_at = None, scopes = [''messages:read''],
         name = ''Read-Only API Key'', key_created_at = ''2024-01-01T00:00:00Z''\<rparr>)]"

text \<open>
  A lookup either throws (\<open>Inl\<close> of the error's message) or returns a record or \<^verbatim>\<open>null\<close>.
  The validator is written against any such pair of lookups; \<open>mock_getInbox\<close> and
  \<open>mock_getApiKey\<close> are the two of mock/database.ts, which never throw.
\<close>

type_synonym 'a lookup = "string \<Rightarrow> string + 'a option"

definition mock_getInbox :: "MockInbox lookup" where
  "mock_getInbox inboxId = Inr (MOCK_INBOXES inboxId)"

definition mock_getApiKey :: "MockApiKey lookup" where
  "mock_getApiKey apiKey = Inr (MOCK_API_KEYS apiKey)"

section \<open>Credential format validators (auth/validator.ts)\<close>

definition in_range :: "char \<Rightarrow> char \<Rightarrow> char \<Rightarrow> bool" where
  "in_range lo hi c = ((of_char lo :: nat) \<le> of_char c \<and> (of_char c :: nat) \<le> of_char hi)"

text \<open>The character classes \<^verbatim>\<open>[a-zA-Z]\<close>, \<^verbatim>\<open>[a-zA-Z0-9]\<close>, \<^verbatim>\<open>[a-zA-Z0-9._%+-]\<close>
  and \<^verbatim>\<open>[a-zA-Z0-9.-]\<close>.\<close>

definition alpha :: "char \<Rightarrow> bool" where
  "alpha c = (in_range CHR ''a'' CHR ''z'' c \<or> in_range CHR ''A'' CHR ''Z'' c)"

definition alnum :: "char \<Rightarrow> bool" where
  "alnum c = (alpha c \<or> in_range CHR ''0'' CHR ''9'' c)"

definition local_char :: "char \<Rightarrow> bool" where
  "local_char c = (alnum c \<or> c \<in> set ''._%+-'')"

definition domain_char :: "char \<Rightarrow> bool" where
  "domain_char c = (alnum c \<or> c \<in> set ''.-'')"

text \<open>Every way of cutting a string in two: the choices a regular expression has when
  one part ends and the next begins.\<close>

definition splits :: "'a list \<Rightarrow> ('a list \<times> 'a list) list" where
  "splits xs = map (\<lambda>i. (take i xs, drop i xs)) [0..<Suc (length xs)]"

text \<open>\<^verbatim>\<open>inb_[a-zA-Z0-9]{12,32}\<close>, anchored at both ends.\<close>

definition legacy_inbox_id :: "string \<Rightarrow> bool" where
  "legacy_inbox_id s =
     (take 4 s = ''inb_'' \<and>
      (let r = drop 4 s in 12 \<le> length r \<and> length r \<le> 32 \<and> list_all alnum r))"

text \<open>\<^verbatim>\<open>[a-zA-Z0-9.-]+\.[a-zA-Z]{2,}\<close>, anchored at both ends.\<close>

definition domain_part :: "string \<Rightarrow> bool" where
  "domain_part s =
     list_ex (\<lambda>(d, r). d \<noteq> [] \<and> list_all domain_char d \<and>
                (case r of [] \<Rightarrow> False
                 | c # t \<Rightarrow> c = CHR ''.'' \<and> 2 \<le> length t \<and> list_all alpha t))
       (splits s)"

text \<open>\<^verbatim>\<open>[a-zA-Z0-9._%+-]+@[a-zA-Z0-9.-]+\.[a-zA-Z]{2,}\<close>, anchored at both ends.\<close>

definition address_inbox_id :: "string \<Rightarrow> bool" where
  "address_inbox_id s =
     list_ex (\<lambda>(l, r). l \<noteq> [] \<and> list_all local_char l \<and>
                (case r of [] \<Rightarrow> False | c # d \<Rightarrow> c = CHR ''@'' \<and> domain_part d))
       (splits s)"

text \<open>\<^verbatim>\<open>INBOX_ID_REGEX.test(s)\<close> and \<^verbatim>\<open>API_KEY_REGEX.test(s)\<close>.\<close>

definition INBOX_ID_REGEX :: "string \<Rightarrow> bool" where
  "INBOX_ID_REGEX s = (legacy_inbox_id s \<or> address_inbox_id s)"

definition API_KEY_REGEX :: "string \<Rightarrow> bool" where
  "API_KEY_REGEX s =
     (take 3 s = ''am_'' \<and>
      (let r = drop 3 s in 32 \<le> length r \<and> length r \<le> 128 \<and> list_all alnum r))"

definition validateInboxIdFormat :: "string \<Rightarrow> bool" where
  "validateInboxIdFormat inboxId = INBOX_ID_REGEX inboxId"

definition validateApiKeyFormat :: "string \<Rightarrow> bool" where
  "validateApiKeyFormat apiKey = API_KEY_REGEX apiKey"

section \<open>The authentication pipeline (auth/validator.ts)\<close>

text \<open>
  What the function reads from outside: the two lookups, the parser behind
  \<^verbatim>\<open>new Date(string)\<close> (\<open>None\<close> is an invalid date, which compares false with
  everything) and the clock behind \<^verbatim>\<open>new Date()\<close>, in milliseconds.
\<close>

record AuthEnv =
  getApiKey :: "MockApiKey lookup"
  getInbox :: "MockInbox lookup"
  parseDate :: "string \<Rightarrow> int option"
  clock :: int

datatype LookupCall = GetApiKey string | GetInbox string

definition date_less :: "int option \<Rightarrow> int \<Rightarrow> bool" where
  "date_less d t = (case d of None \<Rightarrow> False | Some x \<Rightarrow> x < t)"

text \<open>\<^verbatim>\<open>apiKey.expires_at && new Date(apiKey.expires_at) < new Date()\<close>\<close>

definition expired :: "AuthEnv \<Rightarrow> MockApiKey \<Rightarrow> bool" where
  "expired env apiKey =
     (truthy_str (expires_at apiKey) \<and>
      date_less (parseDate env (the (expires_at apiKey))) (clock env))"

text \<open>
  The function returns its result together with the lookups it has made, in order. The
  logger calls are left out: they change nothing the function or its callers read.
\<close>

definition validateSMTPCredentials ::
  "AuthEnv \<Rightarrow> jsval \<Rightarrow> jsval \<Rightarrow> AuthResult \<times> LookupCall list" where
  "validateSMTPCredentials env username password =
    (case checked_string username of
       None \<Rightarrow>
         (Failure (createAuthError INVALID_INBOX_ID_FORMAT ''Empty or invalid username provided''), [])
     | Some u \<Rightarrow>
    if \<not> validateInboxIdFormat u then
      (Failure (createAuthError INVALID_INBOX_ID_FORMAT
         (''Invalid inbox_id format: '' @ take 20 u @ ''...'')), [])
    else
    (case checked_string password of
       None \<Rightarrow>
         (Failure (createAuthError INVALID_API_KEY_FORMAT
            ''Empty or invalid password/API key provided''), [])
     | Some p \<Rightarrow>
    if \<not> validateApiKeyFormat p then
      (Failure (createAuthError INVALID_API_KEY_FORMAT
         (''Invalid API key format (length: '' @ string_of_nat (length p) @ '')'')), [])
    else
    (case getApiKey env p of
       Inl dbError \<Rightarrow>
         (Failure (createAuthError DATABASE_ERROR
            (''Database error looking up API key: '' @ dbError)), [GetApiKey p])
     | Inr None \<Rightarrow>
         (Failure (createAuthError API_KEY_NOT_FOUND ''API key not found in database''),
          [GetApiKey p])
     | Inr (Some apiKey) \<Rightarrow>
    if truthy_str (revoked_at apiKey) then
      (Failure (createAuthError API_KEY_REVOKED
         (''API key was revoked at '' @ the (revoked_at apiKey))), [GetApiKey p])
    else if expired env apiKey then
      (Failure (createAuthError API_KEY_EXPIRED
         (''API key expired at '' @ the (expires_at apiKey))), [GetApiKey p])
    else if ''smtp:send'' \<notin> set (scopes apiKey) then
      (Failure (createAuthError INSUFFICIENT_PERMISSIONS
         (''API key lacks smtp:send scope. Has: '' @ join '', '' (scopes apiKey))),
       [GetApiKey p])
    else
    (case getInbox env u of
       Inl dbError \<Rightarrow>
         (Failure (createAuthError DATABASE_ERROR
            (''Database error looking up inbox: '' @ dbError)), [GetApiKey p, GetInbox u])
     | Inr None \<Rightarrow>
         (Failure (createAuthError INBOX_NOT_FOUND (''Inbox not found: '' @ u)),
          [GetApiKey p, GetInbox u])
     | Inr (Some inbox) \<Rightarrow>
    if status inbox = disabled then
      (Failure (createAuthError INBOX_DISABLED (''Inbox is disabled: '' @ u)),
       [GetApiKey p, GetInbox u])
    else if status inbox = suspended then
      (Failure (createAuthError INBOX_SUSPENDED (''Inbox is suspended: '' @ u)),
       [GetApiKey p, GetInbox u])
    else if inbox_organization_id inbox \<noteq> key_organization_id apiKey then
      (Failure (createAuthError INBOX_ORG_MISMATCH
         (''Inbox org ('' @ inbox_organization_id inbox @ '') != API key org (''
            @ key_organization_id apiKey @ '')'')),
       [GetApiKey p, GetInbox u])
    else
      (Success \<lparr>inbox_id = inbox_inbox_id inbox,
                organization_id = inbox_organization_id inbox,
                email_address = inbox_email_address inbox,
                api_key_id = key_api_key_id apiKey\<rparr>,
       [GetApiKey p, GetInbox u])))))"

section \<open>Session state (session/session-state.ts)\<close>

datatype SMTPSessionState = INIT | HELLO | AUTHENTICATED | MAIL_FROM | RCPT_TO | DATA | COMPLETED

record ConnectionMetadata =
  remoteAddress :: string
  remotePort :: "int option"
  clientHostname :: "string option"
  tlsEnabled :: bool

text \<open>\<^verbatim>\<open>SessionUser\<close> has the four fields of \<^verbatim>\<open>AuthenticatedUser\<close> and the API key.\<close>

record SessionUser = AuthenticatedUser +
  api_key :: string

record SessionRecipient =
  address :: string
  addedAt :: int

text \<open>A \<^verbatim>\<open>Date\<close> is its number of milliseconds. The fields \<^verbatim>\<open>from\<close> and \<^verbatim>\<open>to\<close> of a
  transition are \<open>from_state\<close> and \<open>to_state\<close> here, and the \<^verbatim>\<open>id\<close> of a session is
  \<open>session_id\<close>.\<close>

record StateTransition =
  from_state :: SMTPSessionState
  to_state :: SMTPSessionState
  timestamp :: int
  command :: "string option"

record SessionTimestamps =
  createdAt :: int
  lastActivityAt :: int
  authenticatedAt :: "int option"
  mailFromAt :: "int option"
  dataStartedAt :: "int option"
  completedAt :: "int option"

record SMTPSession =
  session_id :: string
  state :: SMTPSessionState
  timestamps :: SessionTimestamps
  user :: "SessionUser option"
  authenticated :: bool
  mailFrom :: "string option"
  rcptTo :: "SessionRecipient list"
  messageData :: "string option"
  messageId :: "string option"
  connection :: ConnectionMetadata
  messageCount :: nat
  stateHistory :: "StateTransition list"

fun VALID_COMMANDS_BY_STATE :: "SMTPSessionState \<Rightarrow> string list" where
  "VALID_COMMANDS_BY_STATE INIT = [''EHLO'', ''HELO'']"
| "VALID_COMMANDS_BY_STATE HELLO = [''AUTH'', ''MAIL'', ''QUIT'']"
| "VALID_COMMANDS_BY_STATE AUTHENTICATED = [''MAIL'', ''QUIT'']"
| "VALID_COMMANDS_BY_STATE MAIL_FROM = [''RCPT'', ''QUIT'']"
| "VALID_COMMANDS_BY_STATE RCPT_TO = [''RCPT'', ''DATA'', ''QUIT'']"
| "VALID_COMMANDS_BY_STATE DATA = []"
| "VALID_COMMANDS_BY_STATE COMPLETED = [''MAIL'', ''QUIT'']"

definition COMMAND_STATE_TRANSITIONS ::
  "string \<rightharpoonup> SMTPSessionState list \<times> SMTPSessionState" where
  "COMMAND_STATE_TRANSITIONS = map_of
     [(''EHLO'', ([INIT], HELLO)),
      (''HELO'', ([INIT], HELLO)),
      (''AUTH'', ([HELLO], AUTHENTICATED)),
      (''MAIL'', ([HELLO, AUTHENTICATED, COMPLETED], MAIL_FROM)),
      (''RCPT'', ([MAIL_FROM, RCPT_TO], RCPT_TO)),
      (''DATA'', ([RCPT_TO], DATA)),
      (''DATA_COMPLETE'', ([DATA], COMPLETED))]"

definition SESSION_TIMEOUT_MS :: int where
  "SESSION_TIMEOUT_MS = 30 * 60 * 1000"

definition MAX_RECIPIENTS :: nat where
  "MAX_RECIPIENTS = 50"

definition CLEANUP_INTERVAL_MS :: int where
  "CLEANUP_INTERVAL_MS = 5 * 60 * 1000"

definition canExecuteCommandInState :: "SMTPSessionState \<Rightarrow> string \<Rightarrow> bool" where
  "canExecuteCommandInState st cmd = (cmd \<in> set (VALID_COMMANDS_BY_STATE st))"

definition getNextState :: "SMTPSessionState \<Rightarrow> string \<Rightarrow> SMTPSessionState option" where
  "getNextState currentState cmd =
     (case COMMAND_STATE_TRANSITIONS cmd of
        None \<Rightarrow> None
      | Some (sources, target) \<Rightarrow> if currentState \<in> set sources then Some target else None)"

definition createEmptySession :: "string \<Rightarrow> ConnectionMetadata \<Rightarrow> int \<Rightarrow> SMTPSession" where
  "createEmptySession sessionId conn now =
     \<lparr>session_id = sessionId, state = INIT,
      timestamps = \<lparr>createdAt = now, lastActivityAt = now, authenticatedAt = None,
                    mailFromAt = None, dataStartedAt = None, completedAt = None\<rparr>,
      user = None, authenticated = False, mailFrom = None, rcptTo = [],
      messageData = None, messageId = None, connection = conn,
      messageCount = 0, stateHistory = []\<rparr>"

section \<open>The session manager (session/session-manager.ts)\<close>

text \<open>
  The manager's state is its map from session identifiers to sessions. A method that
  mutates a session in place returns the updated map here, together with what the method
  returns (\<open>None\<close> is \<^verbatim>\<open>null\<close>). Each method takes as \<open>now\<close> the value of the clock that
  its \<^verbatim>\<open>new Date()\<close> calls read: one call of a method runs to completion without
  waiting, and is given one reading.
\<close>

type_synonym sessions = "string \<rightharpoonup> SMTPSession"

definition createSession ::
  "string \<Rightarrow> ConnectionMetadata \<Rightarrow> int \<Rightarrow> sessions \<Rightarrow> sessions \<times> SMTPSession" where
  "createSession sessionId conn now m =
     (let session = createEmptySession sessionId conn now in (m(sessionId \<mapsto> session), session))"

definition getSession :: "sessions \<Rightarrow> string \<Rightarrow> SMTPSession option" where
  "getSession m sessionId = m sessionId"

definition deleteSession :: "string \<Rightarrow> sessions \<Rightarrow> sessions \<times> bool" where
  "deleteSession sessionId m =
     (case m sessionId of
        Some session \<Rightarrow> (m(sessionId := None), True)
      | None \<Rightarrow> (m, False))"

definition canExecuteCommand :: "sessions \<Rightarrow> string \<Rightarrow> string \<Rightarrow> bool" where
  "canExecuteCommand m sessionId cmd =
     (case getSession m sessionId of
        None \<Rightarrow> False
      | Some session \<Rightarrow> canExecuteCommandInState (state session) cmd)"

definition transitionState ::
  "string \<Rightarrow> string \<Rightarrow> SMTPSessionState \<Rightarrow> int \<Rightarrow> sessions \<Rightarrow> sessions \<times> SMTPSession option" where
  "transitionState sessionId cmd newState now m =
     (case m sessionId of
        None \<Rightarrow> (m, None)
      | Some session \<Rightarrow>
          (let transition = \<lparr>from_state = state session, to_state = newState,
                             timestamp = now, command = Some cmd\<rparr>;
               session' = session
                 \<lparr>stateHistory := stateHistory session @ [transition],
                  state := newState,
                  timestamps := (timestamps session)\<lparr>lastActivityAt := now\<rparr>\<rparr>
           in (m(sessionId \<mapsto> session'), Some session')))"

definition handleHello ::
  "string \<Rightarrow> string option \<Rightarrow> int \<Rightarrow> sessions \<Rightarrow> sessions \<times> SMTPSession option" where
  "handleHello sessionId hostname now m =
     (case getSession m sessionId of
        None \<Rightarrow> (m, None)
      | Some session \<Rightarrow>
          (case getNextState (state session) ''EHLO'' of
             None \<Rightarrow> (m, None)
           | Some nextState \<Rightarrow>
               (let session' =
                      (if truthy_str hostname
                       then session\<lparr>connection := (connection session)\<lparr>clientHostname := hostname\<rparr>\<rparr>
                       else session)
                in transitionState sessionId ''EHLO'' nextState now (m(sessionId \<mapsto> session')))))"

definition handleAuthentication ::
  "string \<Rightarrow> SessionUser \<Rightarrow> int \<Rightarrow> sessions \<Rightarrow> sessions \<times> SMTPSession option" where
  "handleAuthentication sessionId usr now m =
     (case getSession m sessionId of
        None \<Rightarrow> (m, None)
      | Some session \<Rightarrow>
          (case getNextState (state session) ''AUTH'' of
             None \<Rightarrow> (m, None)
           | Some nextState \<Rightarrow>
               (let session' = session
                      \<lparr>user := Some usr,
                       authenticated := True,
                       timestamps := (timestamps session)\<lparr>authenticatedAt := Some now\<rparr>\<rparr>
                in transitionState sessionId ''AUTH'' nextState now (m(sessionId \<mapsto> session')))))"

definition handleMailFrom ::
  "string \<Rightarrow> string \<Rightarrow> int \<Rightarrow> sessions \<Rightarrow> sessions \<times> SMTPSession option" where
  "handleMailFrom sessionId sender now m =
     (case getSession m sessionId of
        None \<Rightarrow> (m, None)
      | Some session \<Rightarrow>
          (case getNextState (state session) ''MAIL'' of
             None \<Rightarrow> (m, None)
           | Some nextState \<Rightarrow>
               (let session' = session
                      \<lparr>mailFrom := Some sender,
                       timestamps := (timestamps session)\<lparr>mailFromAt := Some now\<rparr>,
                       rcptTo := [],
                       messageData := None,
                       messageId := None\<rparr>
                in transitionState sessionId ''MAIL'' nextState now (m(sessionId \<mapsto> session')))))"

definition handleRcptTo ::
  "string \<Rightarrow> string \<Rightarrow> int \<Rightarrow> sessions \<Rightarrow> sessions \<times> SMTPSession option" where
  "handleRcptTo sessionId recipient now m =
     (case getSession m sessionId of
        None \<Rightarrow> (m, None)
      | Some session \<Rightarrow>
          if length (rcptTo session) \<ge> MAX_RECIPIENTS then (m, None)
          else
          (case getNextState (state session) ''RCPT'' of
             None \<Rightarrow> (m, None)
           | Some nextState \<Rightarrow>
               (let recipientEntry = \<lparr>address = recipient, addedAt = now\<rparr>;
                    session' = session\<lparr>rcptTo := rcptTo session @ [recipientEntry]\<rparr>;
                    m' = m(sessionId \<mapsto> session')
                in if state session' \<noteq> RCPT_TO
                   then transitionState sessionId ''RCPT'' nextState now m'
                   else (let session'' = session'
                               \<lparr>timestamps := (timestamps session')\<lparr>lastActivityAt := now\<rparr>\<rparr>
                         in (m'(sessionId \<mapsto> session''), Some session'')))))"

definition handleDataStart ::
  "string \<Rightarrow> int \<Rightarrow> sessions \<Rightarrow> sessions \<times> SMTPSession option" where
  "handleDataStart sessionId now m =
     (case getSession m sessionId of
        None \<Rightarrow> (m, None)
      | Some session \<Rightarrow>
          if length (rcptTo session) = 0 then (m, None)
          else
          (case getNextState (state session) ''DATA'' of
             None \<Rightarrow> (m, None)
           | Some nextState \<Rightarrow>
               (let session' = session
                      \<lparr>timestamps := (timestamps session)\<lparr>dataStartedAt := Some now\<rparr>\<rparr>
                in transitionState sessionId ''DATA'' nextState now (m(sessionId \<mapsto> session')))))"

definition handleDataComplete ::
  "string \<Rightarrow> string \<Rightarrow> int \<Rightarrow> sessions \<Rightarrow> sessions \<times> SMTPSession option" where
  "handleDataComplete sessionId msgId now m =
     (case getSession m sessionId of
        None \<Rightarrow> (m, None)
      | Some session \<Rightarrow>
          (case getNextState (state session) ''DATA_COMPLETE'' of
             None \<Rightarrow> (m, None)
           | Some nextState \<Rightarrow>
               (let session' = session
                      \<lparr>messageId := Some msgId,
                       timestamps := (timestamps session)\<lparr>completedAt := Some now\<rparr>,
                       messageCount := messageCount session + 1\<rparr>
                in transitionState sessionId ''DATA_COMPLETE'' nextState now
                     (m(sessionId \<mapsto> session')))))"

definition resetForNewMessage :: "string \<Rightarrow> int \<Rightarrow> sessions \<Rightarrow> sessions" where
  "resetForNewMessage sessionId now m =
     (case getSession m sessionId of
        None \<Rightarrow> m
      | Some session \<Rightarrow>
          (let previousState = state session;
               newState = (if authenticated session then AUTHENTICATED else HELLO);
               session' = session
                 \<lparr>mailFrom := None,
                  rcptTo := [],
                  messageData := None,
                  messageId := None,
                  timestamps := (timestamps session)
                    \<lparr>mailFromAt := None, dataStartedAt := None, completedAt := None,
                     lastActivityAt := now\<rparr>,
                  state := newState,
                  stateHistory := stateHistory session @
                    [\<lparr>from_state = previousState, to_state = newState,
                      timestamp = now, command = Some ''RESET''\<rparr>]\<rparr>
           in m(sessionId \<mapsto> session')))"

definition updateActivity :: "string \<Rightarrow> int \<Rightarrow> sessions \<Rightarrow> sessions" where
  "updateActivity sessionId now m =
     (case getSession m sessionId of
        None \<Rightarrow> m
      | Some session \<Rightarrow>
          m(sessionId \<mapsto> session\<lparr>timestamps := (timestamps session)\<lparr>lastActivityAt := now\<rparr>\<rparr>))"

text \<open>
  A sequence of calls of the manager's methods, each with the clock value it reads,
  run from a given map of sessions.
\<close>

datatype ManagerOp =
    CreateSession string ConnectionMetadata
  | DeleteSession string
  | HandleHello string "string option"
  | HandleAuthentication string SessionUser
  | HandleMailFrom string string
  | HandleRcptTo string string
  | HandleDataStart string
  | HandleDataComplete string string
  | ResetForNewMessage string
  | UpdateActivity string

fun perform :: "ManagerOp \<Rightarrow> int \<Rightarrow> sessions \<Rightarrow> sessions" where
  "perform (CreateSession sessionId conn) now m = fst (createSession sessionId conn now m)"
| "perform (DeleteSession sessionId) now m = fst (deleteSession sessionId m)"
| "perform (HandleHello sessionId hostname) now m = fst (handleHello sessionId hostname now m)"
| "perform (HandleAuthentication sessionId usr) now m = fst (handleAuthentication sessionId usr now m)"
| "perform (HandleMailFrom sessionId sender) now m = fst (handleMailFrom sessionId sender now m)"
| "perform (HandleRcptTo sessionId recipient) now m = fst (handleRcptTo sessionId recipient now m)"
| "perform (HandleDataStart sessionId) now m = fst (handleDataStart sessionId now m)"
| "perform (HandleDataComplete sessionId msgId) now m = fst (handleDataComplete sessionId msgId now m)"
| "perform (ResetForNewMessage sessionId) now m = resetForNewMessage sessionId now m"
| "perform (UpdateActivity sessionId) now m = updateActivity sessionId now m"

fun run :: "(ManagerOp \<times> int) list \<Rightarrow> sessions \<Rightarrow> sessions" where
  "run [] m = m"
| "run ((operation, now) # rest) m = run rest (perform operation now m)"

text \<open>The timestamps of a session's transition history, oldest first.\<close>

definition history_times :: "SMTPSession \<Rightarrow> int list" where
  "history_times session = map timestamp (stateHistory session)"

section \<open>The server's hooks (server.ts)\<close>

text \<open>The members of \<^verbatim>\<open>SMTPErrorCode\<close> (errors/mapping.ts) that the hooks use.\<close>

definition LOCAL_ERROR :: int where
  "LOCAL_ERROR = 451"

definition INSUFFICIENT_STORAGE :: int where
  "INSUFFICIENT_STORAGE = 452"

definition BAD_SEQUENCE :: int where
  "BAD_SEQUENCE = 503"

definition AUTH_REQUIRED :: int where
  "AUTH_REQUIRED = 530"

text \<open>
  A hook answers through its callback: with an error, or with nothing (the command is
  accepted). The hook's result here is the manager's map afterwards and that answer.
  \<^verbatim>\<open>smtpSession\<close> is a reference to the object in the map; what a hook reads through it
  after \<^verbatim>\<open>updateActivity\<close> (the flag, the state, the recipients) is what it held
  before, since \<^verbatim>\<open>updateActivity\<close> writes the last-activity time only.
\<close>

definition onConnect :: "string \<Rightarrow> ConnectionMetadata \<Rightarrow> int \<Rightarrow> sessions \<Rightarrow> sessions" where
  "onConnect sessionId conn now m =
     (let m1 = fst (createSession sessionId conn now m)
      in fst (handleHello sessionId (clientHostname conn) now m1))"

record SMTPServerAuthentication =
  auth_method :: string
  auth_username :: "string option"
  auth_password :: "string option"

text \<open>\<^verbatim>\<open>x || ''\<close>\<close>

definition or_empty :: "string option \<Rightarrow> string" where
  "or_empty x = (if truthy_str x then the x else [])"

text \<open>
  \<open>onAuth\<close> waits for the validator, so it is given two clock values: \<open>now\<close> on entry
  and \<open>later\<close> after the validator has answered. Its \<^verbatim>\<open>catch\<close> branch (an exception out
  of the validator) has no counterpart: the validator of this model turns every fault
  of a lookup into a result.
\<close>

definition onAuth ::
  "AuthEnv \<Rightarrow> SMTPServerAuthentication \<Rightarrow> string \<Rightarrow> int \<Rightarrow> int \<Rightarrow> sessions
     \<Rightarrow> sessions \<times> (SMTPError + AuthenticatedUser)" where
  "onAuth env auth sessionId now later m =
     (case getSession m sessionId of
        None \<Rightarrow> (m, Inl (createSMTPError LOCAL_ERROR ''4.3.0'' ''Session error''))
      | Some smtpSession \<Rightarrow>
          (let m1 = updateActivity sessionId now m in
           if \<not> canExecuteCommand m1 sessionId ''AUTH'' then
             (m1, Inl (createSMTPError BAD_SEQUENCE ''5.5.1'' ''Bad sequence of commands''))
           else
             (case fst (validateSMTPCredentials env
                          (JStr (or_empty (auth_username auth)))
                          (JStr (or_empty (auth_password auth)))) of
                Failure error \<Rightarrow> (m1, Inl (createSMTPAuthError error))
              | Success usr \<Rightarrow>
                  (let m2 = fst (handleAuthentication sessionId
                                   \<lparr>inbox_id = inbox_id usr,
                                    organization_id = organization_id usr,
                                    email_address = email_address usr,
                                    api_key_id = api_key_id usr,
                                    api_key = or_empty (auth_password auth)\<rparr> later m1)
                   in (m2, Inr usr)))))"

definition onMailFrom ::
  "string \<Rightarrow> string \<Rightarrow> int \<Rightarrow> sessions \<Rightarrow> sessions \<times> SMTPError option" where
  "onMailFrom sessionId sender now m =
     (case getSession m sessionId of
        None \<Rightarrow> (m, Some (createSMTPError LOCAL_ERROR ''4.3.0'' ''Session error''))
      | Some smtpSession \<Rightarrow>
          (let m1 = updateActivity sessionId now m in
           if \<not> authenticated smtpSession then
             (m1, Some (createSMTPError AUTH_REQUIRED ''5.7.0'' ''Authentication required''))
           else
           (let m2 = (if state smtpSession = COMPLETED
                      then resetForNewMessage sessionId now m1 else m1) in
            if \<not> canExecuteCommand m2 sessionId ''MAIL'' then
              (m2, Some (createSMTPError BAD_SEQUENCE ''5.5.1'' ''Bad sequence of commands''))
            else
              (case handleMailFrom sessionId sender now m2 of
                 (m3, None) \<Rightarrow>
                   (m3, Some (createSMTPError BAD_SEQUENCE ''5.5.1'' ''Bad sequence of commands''))
               | (m3, Some updated) \<Rightarrow> (m3, None)))))"

definition onRcptTo ::
  "string \<Rightarrow> string \<Rightarrow> int \<Rightarrow> sessions \<Rightarrow> sessions \<times> SMTPError option" where
  "onRcptTo sessionId recipient now m =
     (case getSession m sessionId of
        None \<Rightarrow> (m, Some (createSMTPError LOCAL_ERROR ''4.3.0'' ''Session error''))
      | Some smtpSession \<Rightarrow>
          (let m1 = updateActivity sessionId now m in
           if \<not> canExecuteCommand m1 sessionId ''RCPT'' then
             (m1, Some (createSMTPError BAD_SEQUENCE ''5.5.1'' ''Bad sequence of commands''))
           else
             (case handleRcptTo sessionId recipient now m1 of
                (m2, None) \<Rightarrow>
                  if length (rcptTo smtpSession) \<ge> 50 then
                    (m2, Some (createSMTPError INSUFFICIENT_STORAGE ''4.5.3'' ''Too many recipients''))
                  else
                    (m2, Some (createSMTPError BAD_SEQUENCE ''5.5.1'' ''Bad sequence of commands''))
              | (m2, Some updated) \<Rightarrow> (m2, None))))"

text \<open>
  \<open>onData\<close> with the work between the two transitions as a parameter: \<open>process\<close> is
  what parsing the stream, transforming the message and calling the submission API come
  to for the session found under the identifier, either the error that the \<^verbatim>\<open>catch\<close>
  branch answers with or the message identifier. The hook waits for that work, so
  completion reads the clock anew (\<open>later\<close>).
\<close>

definition onData ::
  "(sessions \<Rightarrow> string \<Rightarrow> SMTPError + string) \<Rightarrow> string \<Rightarrow> int \<Rightarrow> int \<Rightarrow> sessions
     \<Rightarrow> sessions \<times> (SMTPError + string)" where
  "onData process sessionId now later m =
     (case getSession m sessionId of
        None \<Rightarrow> (m, Inl (createSMTPError LOCAL_ERROR ''4.3.0'' ''Session error''))
      | Some smtpSession \<Rightarrow>
          (let m1 = updateActivity sessionId now m in
           if \<not> canExecuteCommand m1 sessionId ''DATA'' then
             (m1, Inl (createSMTPError BAD_SEQUENCE ''5.5.1'' ''Bad sequence of commands''))
           else if length (rcptTo smtpSession) = 0 then
             (m1, Inl (createSMTPError BAD_SEQUENCE ''5.5.1'' ''No recipients specified''))
           else
             (let m2 = fst (handleDataStart sessionId now m1) in
              case process m2 sessionId of
                Inl err \<Rightarrow> (m2, Inl err)
              | Inr msgId \<Rightarrow>
                  (fst (handleDataComplete sessionId msgId later m2),
                   Inr (''Message queued as '' @ msgId)))))"

section \<open>HTTP status to SMTP reply (errors/http-to-smtp-mapping.ts)\<close>

record SMTPErrorResult = SMTPReply +
  retryable :: bool

record HTTPToSMTPMapping = SMTPErrorResult +
  httpStatus :: int
  description :: string

definition HTTP_TO_SMTP_MAPPINGS :: "int \<rightharpoonup> HTTPToSMTPMapping" where
  "HTTP_TO_SMTP_MAPPINGS = map_of
    [(200, \<lparr>smtpCode = 250, enhancedCode = ''2.0.0'', message = ''Message accepted for delivery'',
            retryable = False, httpStatus = 200, description = ''OK - Request successful''\<rparr>),
     (201, \<lparr>smtpCode = 250, enhancedCode = ''2.0.0'', message = ''Message queued successfully'',
            retryable = False, httpStatus = 201,
            description = ''Created - Resource created successfully''\<rparr>),
     (400, \<lparr>smtpCode = 501, enhancedCode = ''5.5.2'',
            message = ''Invalid message format or parameters'',
            retryable = False, httpStatus = 400,
            description = ''Bad Request - Malformed request syntax''\<rparr>),
     (401, \<lparr>smtpCode = 535, enhancedCode = ''5.7.8'',
            message = ''Authentication credentials invalid'',
            retryable = False, httpStatus = 401,
            description = ''Unauthorized - Authentication required or failed''\<rparr>),
     (403, \<lparr>smtpCode = 550, enhancedCode = ''5.7.1'', message = ''Access denied'',
            retryable = False, httpStatus = 403,
            description = ''Forbidden - Access denied to resource''\<rparr>),
     (404, \<lparr>smtpCode = 550, enhancedCode = ''5.1.1'', message = ''Mailbox not found'',
            retryable = False, httpStatus = 404,
            description = ''Not Found - Resource does not exist''\<rparr>),
     (413, \<lparr>smtpCode = 552, enhancedCode = ''5.2.3'',
            message = ''Message size exceeds maximum allowed'',
            retryable = False, httpStatus = 413,
            description = ''Payload Too Large - Message exceeds size limit''\<rparr>),
     (422, \<lparr>smtpCode = 554, enhancedCode = ''5.6.0'', message = ''Message content rejected'',
            retryable = False, httpStatus = 422,
            description = ''Unprocessable Entity - Semantic errors in content''\<rparr>),
     (429, \<lparr>smtpCode = 450, enhancedCode = ''4.7.1'',
            message = ''Rate limit exceeded, try again later'',
            retryable = True, httpStatus = 429,
            description = ''Too Many Requests - Rate limit exceeded''\<rparr>),
     (500, \<lparr>smtpCode = 451, enhancedCode = ''4.3.0'',
            message = ''Temporary system error, please retry'',
            retryable = True, httpStatus = 500,
            description = ''Internal Server Error - Unexpected server error''\<rparr>),
     (502, \<lparr>smtpCode = 451, enhancedCode = ''4.4.1'',
            message = ''Upstream service unavailable, please retry'',
            retryable = True, httpStatus = 502,
            description = ''Bad Gateway - Invalid response from upstream''\<rparr>),
     (503, \<lparr>smtpCode = 421, enhancedCode = ''4.3.0'',
            message = ''Service temporarily unavailable'',
            retryable = True, httpStatus = 503,
            description = ''Service Unavailable - Server overloaded or in maintenance''\<rparr>),
     (504, \<lparr>smtpCode = 451, enhancedCode = ''4.4.1'', message = ''Gateway timeout, please retry'',
            retryable = True, httpStatus = 504,
            description = ''Gateway Timeout - Upstream server timeout''\<rparr>)]"

definition mapHttpToSmtp :: "int \<Rightarrow> SMTPErrorResult" where
  "mapHttpToSmtp h =
     (case HTTP_TO_SMTP_MAPPINGS h of
        Some mapping \<Rightarrow>
          \<lparr>smtpCode = smtpCode mapping, enhancedCode = enhancedCode mapping,
           message = message mapping, retryable = retryable mapping\<rparr>
      | None \<Rightarrow>
          if h \<ge> 200 \<and> h < 300 then
            \<lparr>smtpCode = 250, enhancedCode = ''2.0.0'', message = ''Message accepted'',
             retryable = False\<rparr>
          else if h \<ge> 400 \<and> h < 500 then
            \<lparr>smtpCode = 550, enhancedCode = ''5.0.0'', message = ''Request rejected'',
             retryable = False\<rparr>
          else
            \<lparr>smtpCode = 451, enhancedCode = ''4.3.0'', message = ''Temporary failure, please retry'',
             retryable = True\<rparr>)"

definition isRetryableHttpStatus :: "int \<Rightarrow> bool" where
  "isRetryableHttpStatus h =
     (case HTTP_TO_SMTP_MAPPINGS h of
        Some mapping \<Rightarrow> retryable mapping
      | None \<Rightarrow> h = 429 \<or> h \<ge> 500)"

section \<open>SMTP code to HTTP status (errors/mapping.ts)\<close>

record HTTPStatus =
  http_status :: int
  http_error :: string
  http_retryable :: bool

definition SMTP_TO_HTTP :: "int \<rightharpoonup> HTTPStatus" where
  "SMTP_TO_HTTP = map_of
    [(220, \<lparr>http_status = 200, http_error = [], http_retryable = False\<rparr>),
     (221, \<lparr>http_status = 200, http_error = [], http_retryable = False\<rparr>),
     (235, \<lparr>http_status = 200, http_error = [], http_retryable = False\<rparr>),
     (250, \<lparr>http_status = 200, http_error = [], http_retryable = False\<rparr>),
     (354, \<lparr>http_status = 100, http_error = [], http_retryable = False\<rparr>),
     (421, \<lparr>http_status = 503, http_error = ''Service unavailable'', http_retryable = True\<rparr>),
     (450, \<lparr>http_status = 429, http_error = ''Rate limited'', http_retryable = True\<rparr>),
     (451, \<lparr>http_status = 500, http_error = ''Internal server error'', http_retryable = True\<rparr>),
     (452, \<lparr>http_status = 507, http_error = ''Insufficient storage'', http_retryable = True\<rparr>),
     (454, \<lparr>http_status = 503, http_error = ''TLS unavailable'', http_retryable = True\<rparr>),
     (500, \<lparr>http_status = 400, http_error = ''Bad request - syntax error'', http_retryable = False\<rparr>),
     (501, \<lparr>http_status = 400, http_error = ''Bad request - invalid parameters'',
            http_retryable = False\<rparr>),
     (502, \<lparr>http_status = 501, http_error = ''Not implemented'', http_retryable = False\<rparr>),
     (503, \<lparr>http_status = 400, http_error = ''Bad request - wrong sequence'',
            http_retryable = False\<rparr>),
     (521, \<lparr>http_status = 403, http_error = ''Server does not accept mail'',
            http_retryable = False\<rparr>),
     (530, \<lparr>http_status = 401, http_error = ''Authentication required'', http_retryable = False\<rparr>),
     (534, \<lparr>http_status = 403, http_error = ''Authentication too weak'', http_retryable = False\<rparr>),
     (535, \<lparr>http_status = 401, http_error = ''Authentication failed'', http_retryable = False\<rparr>),
     (538, \<lparr>http_status = 403, http_error = ''Encryption required'', http_retryable = False\<rparr>),
     (550, \<lparr>http_status = 404, http_error = ''Mailbox not found'', http_retryable = False\<rparr>),
     (551, \<lparr>http_status = 404, http_error = ''User not local'', http_retryable = False\<rparr>),
     (552, \<lparr>http_status = 413, http_error = ''Message too large'', http_retryable = False\<rparr>),
     (553, \<lparr>http_status = 400, http_error = ''Invalid mailbox name'', http_retryable = False\<rparr>),
     (554, \<lparr>http_status = 422, http_error = ''Transaction failed'', http_retryable = False\<rparr>),
     (556, \<lparr>http_status = 404, http_error = ''Recipient rejected'', http_retryable = False\<rparr>)]"

definition mapFromSMTPCode :: "int \<Rightarrow> HTTPStatus" where
  "mapFromSMTPCode c =
     (case SMTP_TO_HTTP c of
        Some st \<Rightarrow> st
      | None \<Rightarrow> \<lparr>http_status = 500, http_error = ''Unknown error'', http_retryable = True\<rparr>)"

section \<open>Notions used in the statements\<close>

text \<open>
  The expiry timestamp of a credential record, when it has one: \<^verbatim>\<open>expires_at\<close> is
  neither \<^verbatim>\<open>null\<close> nor empty and is a date.
\<close>

definition expiry_timestamp :: "AuthEnv \<Rightarrow> MockApiKey \<Rightarrow> int option" where
  "expiry_timestamp env apiKey =
     (case expires_at apiKey of
        None \<Rightarrow> None
      | Some s \<Rightarrow> if s = [] then None else parseDate env s)"

text \<open>A session whose last-activity time has been refreshed and nothing else.\<close>

definition touched :: "int \<Rightarrow> SMTPSession \<Rightarrow> SMTPSession" where
  "touched now session = session\<lparr>timestamps := (timestamps session)\<lparr>lastActivityAt := now\<rparr>\<rparr>"

text \<open>The two flags of a session agree.\<close>

definition auth_consistent :: "SMTPSession \<Rightarrow> bool" where
  "auth_consistent session = (authenticated session = (user session \<noteq> None))"

section \<open>Concrete inputs\<close>

text \<open>
  The mock store with a clock at 2026-11-02T00:00:00Z and a date parser that knows the
  two dates of the store; and a store whose lookups throw, as
  \<^verbatim>\<open>getApiKeyWithPossibleError\<close> does when the error is switched on.
\<close>

definition mock_env :: AuthEnv where
  "mock_env =
     \<lparr>getApiKey = mock_getApiKey, getInbox = mock_getInbox,
      parseDate = map_of [(''2024-01-01T00:00:00Z'', 1704067200000),
                          (''2024-12-01T00:00:00Z'', 1733011200000)],
      clock = 1793577600000\<rparr>"

definition faulty_env :: AuthEnv where
  "faulty_env =
     \<lparr>getApiKey = (\<lambda>k. Inl ''Simulated database error''),
      getInbox = (\<lambda>i. Inl ''Simulated database error''),
      parseDate = (\<lambda>s. None), clock = 1793577600000\<rparr>"

definition local_conn :: ConnectionMetadata where
  "local_conn = \<lparr>remoteAddress = ''127.0.0.1'', remotePort = Some 50000,
                 clientHostname = Some ''client.example'', tlsEnabled = False\<rparr>"

definition valid_user :: SessionUser where
  "valid_user = \<lparr>inbox_id = ''inb_valid1234567890'', organization_id = ''org_abc'',
                 email_address = ''test@agentmail.dev'', api_key_id = ''key_valid_1'',
                 api_key = ''am_validkey12345678901234567890123456''\<rparr>"

text \<open>One connection, through a whole transaction, at times 10 to 60.\<close>

definition ops_to_mail_from :: "(ManagerOp \<times> int) list" where
  "ops_to_mail_from =
     [(CreateSession ''s1'' local_conn, 10),
      (HandleHello ''s1'' (Some ''client.example''), 10),
      (HandleAuthentication ''s1'' valid_user, 20),
      (HandleMailFrom ''s1'' ''test@agentmail.dev'', 30)]"

definition ops_to_rcpt_to :: "(ManagerOp \<times> int) list" where
  "ops_to_rcpt_to = ops_to_mail_from @ [(HandleRcptTo ''s1'' ''to@example.com'', 40)]"

definition ops_to_completed :: "(ManagerOp \<times> int) list" where
  "ops_to_completed =
     ops_to_rcpt_to @ [(HandleDataStart ''s1'', 50), (HandleDataComplete ''s1'' ''msg_1'', 60)]"

text \<open>What \<open>onMailFrom\<close> calls, one after the other, for a session in \<open>COMPLETED\<close>.\<close>

definition ops_second_mail :: "(ManagerOp \<times> int) list" where
  "ops_second_mail =
     ops_to_completed @
     [(UpdateActivity ''s1'', 70), (ResetForNewMessage ''s1'', 70),
      (HandleMailFrom ''s1'' ''test@agentmail.dev'', 70)]"

text \<open>The same connection with fifty recipients added after the sender.\<close>

definition ops_fifty_recipients :: "(ManagerOp \<times> int) list" where
  "ops_fifty_recipients =
     ops_to_mail_from @ replicate 50 (HandleRcptTo ''s1'' ''to@example.com'', 40)"

section \<open>Notions used in the proofs\<close>

text \<open>
  What one method call may do to a session: the two flags stay in agreement if they were,
  and the history grows only at its end, by entries stamped with the clock value of the
  call.
\<close>

definition extends :: "int \<Rightarrow> SMTPSession \<Rightarrow> SMTPSession \<Rightarrow> bool" where
  "extends now s s' =
     ((auth_consistent s \<longrightarrow> auth_consistent s') \<and>
      take (length (stateHistory s)) (stateHistory s') = stateHistory s \<and>
      list_all (\<lambda>e. timestamp e = now) (drop (length (stateHistory s)) (stateHistory s')))"

text \<open>What one method call may do to the map: nothing, remove a session, store a fresh
  one, or replace a session by one that extends it.\<close>

definition effect :: "int \<Rightarrow> sessions \<Rightarrow> sessions \<Rightarrow> bool" where
  "effect now m m' =
     (m' = m \<or> (\<exists>sid. m' = m(sid := None))
      \<or> (\<exists>sid conn. m' = m(sid \<mapsto> createEmptySession sid conn now))
      \<or> (\<exists>sid s s'. m sid = Some s \<and> m' = m(sid \<mapsto> s') \<and> extends now s s'))"

text \<open>Every history in the map is in order and holds no time after \<open>t\<close>.\<close>

definition bounded :: "int \<Rightarrow> sessions \<Rightarrow> bool" where
  "bounded t m =
     (\<forall>s \<in> ran m. sorted (history_times s) \<and> (\<forall>x \<in> set (history_times s). x \<le> t))"

section \<open>Basic facts\<close>

lemma checked_string_None:
  "checked_string v = None \<longleftrightarrow> \<not> truthy v \<or> \<not> is_string v"
  by (cases v) simp_all

lemma checked_string_Some:
  "checked_string v = Some s \<longleftrightarrow> v = JStr s \<and> s \<noteq> []"
  by (cases v) auto

lemma expired_iff:
  "expired env apiKey \<longleftrightarrow> (\<exists>t. expiry_timestamp env apiKey = Some t \<and> t < clock env)"
  by (cases "expires_at apiKey"; cases "parseDate env (the (expires_at apiKey))")
     (auto simp add: expired_def expiry_timestamp_def date_less_def)

lemma getNextState_simps:
  "getNextState st ''EHLO'' = (if st = INIT then Some HELLO else None)"
  "getNextState st ''AUTH'' = (if st = HELLO then Some AUTHENTICATED else None)"
  "getNextState st ''MAIL'' = (if st \<in> {HELLO, AUTHENTICATED, COMPLETED} then Some MAIL_FROM else None)"
  "getNextState st ''RCPT'' = (if st \<in> {MAIL_FROM, RCPT_TO} then Some RCPT_TO else None)"
  "getNextState st ''DATA'' = (if st = RCPT_TO then Some DATA else None)"
  "getNextState st ''DATA_COMPLETE'' = (if st = DATA then Some COMPLETED else None)"
  by (simp_all add: getNextState_def COMMAND_STATE_TRANSITIONS_def)

lemma canExecuteCommandInState_simps:
  "canExecuteCommandInState st ''AUTH'' = (st = HELLO)"
  "canExecuteCommandInState st ''MAIL'' = (st \<in> {HELLO, AUTHENTICATED, COMPLETED})"
  "canExecuteCommandInState st ''RCPT'' = (st \<in> {MAIL_FROM, RCPT_TO})"
  "canExecuteCommandInState st ''DATA'' = (st = RCPT_TO)"
  by (cases st; simp add: canExecuteCommandInState_def)+

lemma updateActivity_eq:
  "m sid = Some s \<Longrightarrow> updateActivity sid now m = m(sid \<mapsto> touched now s)"
  by (simp add: updateActivity_def getSession_def touched_def)

lemma canExecuteCommand_upd:
  "canExecuteCommand (m(sid \<mapsto> s)) sid c = canExecuteCommandInState (state s) c"
  by (simp add: canExecuteCommand_def getSession_def)

lemma touched_fields [simp]:
  "state (touched now s) = state s"
  "rcptTo (touched now s) = rcptTo s"
  "authenticated (touched now s) = authenticated s"
  "stateHistory (touched now s) = stateHistory s"
  by (simp_all add: touched_def)

lemma transitionState_eq:
  "m sid = Some s \<Longrightarrow> transitionState sid c st now m =
     (m(sid \<mapsto> s\<lparr>stateHistory := stateHistory s @
                     [\<lparr>from_state = state s, to_state = st, timestamp = now, command = Some c\<rparr>],
                  state := st, timestamps := (timestamps s)\<lparr>lastActivityAt := now\<rparr>\<rparr>),
      Some (s\<lparr>stateHistory := stateHistory s @
                     [\<lparr>from_state = state s, to_state = st, timestamp = now, command = Some c\<rparr>],
              state := st, timestamps := (timestamps s)\<lparr>lastActivityAt := now\<rparr>\<rparr>))"
  by (simp add: transitionState_def Let_def)

section \<open>What each method does to the map\<close>

lemma effect_same: "effect now m m"
  by (simp add: effect_def)

lemma effect_update: "m sid = Some s \<Longrightarrow> extends now s s' \<Longrightarrow> effect now m (m(sid \<mapsto> s'))"
  by (auto simp add: effect_def)

lemma handleHello_effect: "effect now m (fst (handleHello sid h now m))"
  by (auto simp add: handleHello_def getSession_def transitionState_eq Let_def extends_def
        auth_consistent_def split: option.splits intro!: effect_same effect_update)

lemma handleAuthentication_effect: "effect now m (fst (handleAuthentication sid u now m))"
  by (auto simp add: handleAuthentication_def getSession_def transitionState_eq Let_def extends_def
        auth_consistent_def split: option.splits intro!: effect_same effect_update)

lemma handleMailFrom_effect: "effect now m (fst (handleMailFrom sid a now m))"
  by (auto simp add: handleMailFrom_def getSession_def transitionState_eq Let_def extends_def
        auth_consistent_def split: option.splits intro!: effect_same effect_update)

lemma handleRcptTo_effect: "effect now m (fst (handleRcptTo sid a now m))"
  by (auto simp add: handleRcptTo_def getSession_def transitionState_eq Let_def extends_def
        auth_consistent_def split: option.splits intro!: effect_same effect_update)

lemma handleDataStart_effect: "effect now m (fst (handleDataStart sid now m))"
  by (auto simp add: handleDataStart_def getSession_def transitionState_eq Let_def extends_def
        auth_consistent_def split: option.splits intro!: effect_same effect_update)

lemma handleDataComplete_effect: "effect now m (fst (handleDataComplete sid a now m))"
  by (auto simp add: handleDataComplete_def getSession_def transitionState_eq Let_def extends_def
        auth_consistent_def split: option.splits intro!: effect_same effect_update)

lemma resetForNewMessage_effect: "effect now m (resetForNewMessage sid now m)"
  by (auto simp add: resetForNewMessage_def getSession_def Let_def extends_def
        auth_consistent_def split: option.splits intro!: effect_same effect_update)

lemma updateActivity_effect: "effect now m (updateActivity sid now m)"
  by (auto simp add: updateActivity_def getSession_def Let_def extends_def
        auth_consistent_def split: option.splits intro!: effect_same effect_update)

lemma createSession_effect: "effect now m (fst (createSession sid c now m))"
  by (auto simp add: createSession_def Let_def effect_def)

lemma deleteSession_effect: "effect now m (fst (deleteSession sid m))"
  by (auto simp add: deleteSession_def effect_def split: option.splits)

lemma perform_effect: "effect now m (perform operation now m)"
  by (cases operation)
     (simp_all add: handleHello_effect handleAuthentication_effect handleMailFrom_effect
        handleRcptTo_effect handleDataStart_effect handleDataComplete_effect
        resetForNewMessage_effect updateActivity_effect createSession_effect deleteSession_effect)

subsection \<open>The two flags\<close>

lemma effect_auth:
  assumes "effect now m m'" and "\<forall>s \<in> ran m. auth_consistent s"
  shows "\<forall>s \<in> ran m'. auth_consistent s"
proof
  fix s' assume s': "s' \<in> ran m'"
  then obtain k where k: "m' k = Some s'" by (auto simp: ran_def)
  from assms(1) consider "m' = m" | sid where "m' = m(sid := None)"
    | sid conn where "m' = m(sid \<mapsto> createEmptySession sid conn now)"
    | sid s u where "m sid = Some s" "m' = m(sid \<mapsto> u)" "extends now s u"
    unfolding effect_def by blast
  then show "auth_consistent s'"
  proof cases
    case 1
    with s' assms(2) show ?thesis by simp
  next
    case 2
    with k have "m k = Some s'" by (simp split: if_splits)
    then show ?thesis using assms(2) by (auto simp: ran_def)
  next
    case 3
    with k have "s' = createEmptySession sid conn now \<or> m k = Some s'"
      by (simp split: if_splits)
    then show ?thesis
      using assms(2) by (auto simp: ran_def createEmptySession_def auth_consistent_def)
  next
    case 4
    with k have "s' = u \<or> m k = Some s'" by (simp split: if_splits)
    moreover have "auth_consistent s" using 4(1) assms(2) by (auto simp: ran_def)
    ultimately show ?thesis using 4(3) assms(2) by (auto simp: ran_def extends_def)
  qed
qed

lemma run_auth:
  "\<forall>s \<in> ran m. auth_consistent s \<Longrightarrow> \<forall>s \<in> ran (run ops m). auth_consistent s"
proof (induction ops arbitrary: m)
  case Nil
  then show ?case by simp
next
  case (Cons a ops)
  obtain operation now where a: "a = (operation, now)" by (cases a)
  have "\<forall>s \<in> ran (perform operation now m). auth_consistent s"
    using effect_auth [OF perform_effect Cons.prems] .
  from Cons.IH [OF this] show ?case by (simp add: a)
qed

subsection \<open>The order of the history\<close>

lemma extends_history:
  assumes "extends now s s'"
  shows "\<exists>es. history_times s' = history_times s @ es \<and> (\<forall>x \<in> set es. x = now)"
proof -
  let ?n = "length (stateHistory s)"
  have "stateHistory s' = stateHistory s @ drop ?n (stateHistory s')"
    using assms append_take_drop_id [of ?n "stateHistory s'"] by (simp add: extends_def)
  then have "history_times s' = history_times s @ map timestamp (drop ?n (stateHistory s'))"
    unfolding history_times_def by (metis map_append)
  moreover have "\<forall>x \<in> set (map timestamp (drop ?n (stateHistory s'))). x = now"
    using assms by (auto simp add: extends_def list_all_iff)
  ultimately show ?thesis by blast
qed

lemma sorted_constant: "\<forall>x \<in> set es. x = (c::int) \<Longrightarrow> sorted es"
  by (induction es) auto

lemma extends_bounded:
  assumes "extends now s s'" and "sorted (history_times s)"
      and "\<forall>x \<in> set (history_times s). x \<le> t" and "t \<le> now"
  shows "sorted (history_times s') \<and> (\<forall>x \<in> set (history_times s'). x \<le> now)"
proof -
  from extends_history [OF assms(1)] obtain es
    where es: "history_times s' = history_times s @ es" "\<forall>x \<in> set es. x = now" by blast
  have "sorted es" using es(2) by (rule sorted_constant)
  with assms(2-4) es show ?thesis by (fastforce simp add: sorted_append)
qed

lemma effect_bounded:
  assumes "effect now m m'" and "bounded t m" and "t \<le> now"
  shows "bounded now m'"
  unfolding bounded_def
proof
  fix s' assume s': "s' \<in> ran m'"
  then obtain k where k: "m' k = Some s'" by (auto simp: ran_def)
  have old: "\<And>s. s \<in> ran m \<Longrightarrow>
      sorted (history_times s) \<and> (\<forall>x \<in> set (history_times s). x \<le> now)"
    using assms(2,3) by (fastforce simp add: bounded_def)
  from assms(1) consider "m' = m" | sid where "m' = m(sid := None)"
    | sid conn where "m' = m(sid \<mapsto> createEmptySession sid conn now)"
    | sid s u where "m sid = Some s" "m' = m(sid \<mapsto> u)" "extends now s u"
    unfolding effect_def by blast
  then show "sorted (history_times s') \<and> (\<forall>x \<in> set (history_times s'). x \<le> now)"
  proof cases
    case 1
    with s' old show ?thesis by simp
  next
    case 2
    with k have "m k = Some s'" by (simp split: if_splits)
    then show ?thesis using old by (auto simp: ran_def)
  next
    case 3
    with k have "s' = createEmptySession sid conn now \<or> m k = Some s'"
      by (simp split: if_splits)
    then show ?thesis
    proof
      assume "s' = createEmptySession sid conn now"
      then show ?thesis by (simp add: createEmptySession_def history_times_def)
    next
      assume "m k = Some s'"
      then show ?thesis using old by (auto simp: ran_def)
    qed
  next
    case 4
    with k have "s' = u \<or> m k = Some s'" by (simp split: if_splits)
    then show ?thesis
    proof
      assume "s' = u"
      moreover have "s \<in> ran m" using 4(1) by (auto simp: ran_def)
      then have "sorted (history_times s)" "\<forall>x \<in> set (history_times s). x \<le> t"
        using assms(2) by (auto simp add: bounded_def)
      ultimately show ?thesis using extends_bounded [OF 4(3) _ _ assms(3)] by blast
    next
      assume "m k = Some s'"
      then show ?thesis using old by (auto simp: ran_def)
    qed
  qed
qed

lemma run_bounded:
  "bounded t m \<Longrightarrow> sorted (map snd ops) \<Longrightarrow> \<forall>x \<in> set (map snd ops). t \<le> x
     \<Longrightarrow> \<exists>t'. bounded t' (run ops m)"
proof (induction ops arbitrary: m t)
  case Nil
  then show ?case by auto
next
  case (Cons a ops)
  obtain operation now where a: "a = (operation, now)" by (cases a)
  have "t \<le> now" using Cons.prems(3) a by simp
  then have b: "bounded now (perform operation now m)"
    using effect_bounded [OF perform_effect Cons.prems(1)] by blast
  have "sorted (map snd ops)" "\<forall>x \<in> set (map snd ops). now \<le> x"
    using Cons.prems(2) a by auto
  from Cons.IH [OF b this] show ?case by (simp add: a)
qed

subsection \<open>A new sender after a completed message\<close>

lemma onMailFrom_completed:
  assumes "m sessionId = Some s" and "state s = COMPLETED" and "authenticated s"
  shows "onMailFrom sessionId sender now m =
           (m(sessionId \<mapsto>
              s\<lparr>mailFrom := Some sender, rcptTo := [], messageData := None, messageId := None,
                stateHistory := stateHistory s @
                  [\<lparr>from_state = COMPLETED, to_state = AUTHENTICATED,
                    timestamp = now, command = Some ''RESET''\<rparr>,
                   \<lparr>from_state = AUTHENTICATED, to_state = MAIL_FROM,
                    timestamp = now, command = Some ''MAIL''\<rparr>],
                state := MAIL_FROM,
                timestamps := (timestamps s)
                  \<lparr>dataStartedAt := None, completedAt := None,
                   mailFromAt := Some now, lastActivityAt := now\<rparr>\<rparr>), None)"
  using assms
  by (simp add: onMailFrom_def getSession_def updateActivity_eq canExecuteCommand_upd
        resetForNewMessage_def handleMailFrom_def transitionState_eq getNextState_simps
        canExecuteCommandInState_simps touched_def Let_def)

section \<open>The reply table of the authentication errors\<close>

text \<open>
  Eight of the nine reasons about the credential, the inbox and the organization give
  the shared reply.
\<close>

lemma AUTH_ERRORS_generic:
  "c \<in> {INVALID_API_KEY_FORMAT, API_KEY_NOT_FOUND, API_KEY_REVOKED, API_KEY_EXPIRED,
         INVALID_INBOX_ID_FORMAT, INBOX_NOT_FOUND, INBOX_DISABLED, INBOX_ORG_MISMATCH}
   \<Longrightarrow> AUTH_ERRORS c = \<lparr>smtpCode = 535, enhancedCode = ''5.7.8'',
                          message = ''Authentication credentials invalid'', code = c\<rparr>"
  by auto

text \<open>
  Claim C1: every reason about the credential, the inbox or the organization, that is
  every code but \<open>INSUFFICIENT_PERMISSIONS\<close> and the three system codes, is mapped by
  \<open>AUTH_ERRORS\<close> to status 535, subcode 5.7.8 and the one message
  ``Authentication credentials invalid''.

  The table does so for eight of the nine codes and not for \<open>INBOX_SUSPENDED\<close>: its
  entry has the status and the subcode, and a message of its own, which is also what the
  client of a suspended inbox of the mock store is sent. The header of auth/errors.ts
  and of the validator say that all authentication failures return the same generic
  message, and the entry of \<open>INBOX_DISABLED\<close> next to it does.
\<close>

theorem AUTH_ERRORS_suspended_message:
  "AUTH_ERRORS INBOX_SUSPENDED =
     \<lparr>smtpCode = 535, enhancedCode = ''5.7.8'',
      message = ''Account suspended - contact support'', code = INBOX_SUSPENDED\<rparr>
   \<and> message (AUTH_ERRORS INBOX_SUSPENDED) \<noteq> ''Authentication credentials invalid''
   \<and> message (AUTH_ERRORS INBOX_SUSPENDED) \<noteq> message (AUTH_ERRORS INBOX_DISABLED)
   \<and> map_sum errorText id
        (snd (onAuth mock_env
                \<lparr>auth_method = ''PLAIN'', auth_username = Some ''inb_suspended78901234'',
                 auth_password = Some ''am_validkey12345678901234567890123456''\<rparr>
                ''s1'' 20 20 (onConnect ''s1'' local_conn 10 Map.empty)))
      = Inl ''535 5.7.8 Account suspended - contact support''"
  by code_simp

section \<open>The authentication pipeline\<close>

text \<open>
  Claim C2: when the username fails the format check of the inbox identifier (it is
  empty, not a string, or matches neither pattern) or the password fails the format
  check of the API key, \<open>validateSMTPCredentials\<close> returns a format failure and has
  called neither \<open>getApiKey\<close> nor \<open>getInbox\<close>: the list of its lookups is empty.
\<close>

theorem malformed_credentials_no_lookup:
  assumes "\<not> truthy username \<or> \<not> is_string username
           \<or> (\<exists>u. username = JStr u \<and> \<not> validateInboxIdFormat u)
           \<or> \<not> truthy password \<or> \<not> is_string password
           \<or> (\<exists>p. password = JStr p \<and> \<not> validateApiKeyFormat p)"
  shows "\<exists>e. validateSMTPCredentials env username password = (Failure e, [])
             \<and> (code e = INVALID_INBOX_ID_FORMAT \<or> code e = INVALID_API_KEY_FORMAT)"
proof (cases "checked_string username")
  case None
  then show ?thesis by (simp add: validateSMTPCredentials_def createAuthError_def)
next
  case (Some u)
  then have u: "username = JStr u" "u \<noteq> []" by (simp_all add: checked_string_Some)
  show ?thesis
  proof (cases "validateInboxIdFormat u")
    case False
    with Some show ?thesis by (simp add: validateSMTPCredentials_def createAuthError_def)
  next
    case True
    with assms u have pw: "\<not> truthy password \<or> \<not> is_string password
           \<or> (\<exists>p. password = JStr p \<and> \<not> validateApiKeyFormat p)" by auto
    show ?thesis
    proof (cases "checked_string password")
      case None
      with Some True show ?thesis by (simp add: validateSMTPCredentials_def createAuthError_def)
    next
      case (Some p)
      then have "password = JStr p" "p \<noteq> []" by (simp_all add: checked_string_Some)
      with pw have "\<not> validateApiKeyFormat p" by auto
      with Some \<open>checked_string username = Some u\<close> True show ?thesis
        by (simp add: validateSMTPCredentials_def createAuthError_def)
    qed
  qed
qed

theorem malformed_credentials_no_lookup_witness:
  "\<not> validateApiKeyFormat ''am_short''
   \<and> (\<exists>e. validateSMTPCredentials mock_env (JStr ''inb_valid1234567890'') (JStr ''am_short'')
            = (Failure e, [])
          \<and> (code e = INVALID_INBOX_ID_FORMAT \<or> code e = INVALID_API_KEY_FORMAT))
   \<and> (\<exists>e. validateSMTPCredentials mock_env (JNum 5) (JStr ''am_short'') = (Failure e, [])
          \<and> (code e = INVALID_INBOX_ID_FORMAT \<or> code e = INVALID_API_KEY_FORMAT))"
proof -
  have short: "\<not> validateApiKeyFormat ''am_short''" by code_simp
  have num: "\<not> is_string (JNum 5)" by simp
  show ?thesis
    using malformed_credentials_no_lookup
            [of "JStr ''inb_valid1234567890''" "JStr ''am_short''" mock_env]
          malformed_credentials_no_lookup [of "JNum 5" "JStr ''am_short''" mock_env]
          short num
    by blast
qed

text \<open>
  Claim C6: once the lookup of the API key is reached, a lookup that throws gives
  \<open>DATABASE_ERROR\<close>, with the temporary reply 454 4.7.0, which \<open>mapFromSMTPCode\<close> marks
  retryable; a lookup that returns nothing gives \<open>API_KEY_NOT_FOUND\<close>, with the permanent
  reply 535 5.7.8, not retryable. The lookup is made exactly when both formats are
  valid, which is the hypothesis here.
\<close>

theorem lookup_fault_is_not_absence:
  assumes "checked_string username = Some u" and "validateInboxIdFormat u"
      and "checked_string password = Some p" and "validateApiKeyFormat p"
  shows "(\<forall>fault. getApiKey env p = Inl fault \<longrightarrow>
            (\<exists>e. fst (validateSMTPCredentials env username password) = Failure e
                 \<and> code e = DATABASE_ERROR \<and> smtpCode e = 454 \<and> enhancedCode e = ''4.7.0''
                 \<and> http_retryable (mapFromSMTPCode (smtpCode e))))
       \<and> (getApiKey env p = Inr None \<longrightarrow>
            (\<exists>e. fst (validateSMTPCredentials env username password) = Failure e
                 \<and> code e = API_KEY_NOT_FOUND \<and> smtpCode e = 535 \<and> enhancedCode e = ''5.7.8''
                 \<and> \<not> http_retryable (mapFromSMTPCode (smtpCode e))))"
  using assms
  by (simp add: validateSMTPCredentials_def createAuthError_def mapFromSMTPCode_def SMTP_TO_HTTP_def)

theorem lookup_fault_is_not_absence_witness:
  "(\<exists>e. fst (validateSMTPCredentials faulty_env (JStr ''inb_valid1234567890'')
              (JStr ''am_notexist123456789012345678901234'')) = Failure e
        \<and> code e = DATABASE_ERROR \<and> smtpCode e = 454)
   \<and> (\<exists>e. fst (validateSMTPCredentials mock_env (JStr ''inb_valid1234567890'')
              (JStr ''am_notexist123456789012345678901234'')) = Failure e
        \<and> code e = API_KEY_NOT_FOUND \<and> smtpCode e = 535)"
proof -
  have u: "checked_string (JStr ''inb_valid1234567890'') = Some ''inb_valid1234567890''"
          "validateInboxIdFormat ''inb_valid1234567890''"
    by code_simp+
  have p: "checked_string (JStr ''am_notexist123456789012345678901234'')
             = Some ''am_notexist123456789012345678901234''"
          "validateApiKeyFormat ''am_notexist123456789012345678901234''"
    by code_simp+
  have f: "getApiKey faulty_env ''am_notexist123456789012345678901234''
             = Inl ''Simulated database error''"
    by (simp add: faulty_env_def)
  have a: "getApiKey mock_env ''am_notexist123456789012345678901234'' = Inr None"
    by code_simp
  show ?thesis
    using lookup_fault_is_not_absence [OF u p, of faulty_env]
          lookup_fault_is_not_absence [OF u p, of mock_env] f a
    by auto
qed

text \<open>
  Claim C7: for a credential record that steps 1 to 4 let through (both formats valid,
  the lookup found the record, the record is not revoked): if it has an expiry timestamp
  and that is strictly before the evaluation time, the result is \<open>API_KEY_EXPIRED\<close>; if
  it has none, or one that is not before the evaluation time, the result is not
  \<open>API_KEY_EXPIRED\<close> and the scope check is what comes next: without the scope
  \<^verbatim>\<open>smtp:send\<close> the result is \<open>INSUFFICIENT_PERMISSIONS\<close>, with it the inbox is looked up.
\<close>

theorem expiry_step:
  assumes "checked_string username = Some u" and "validateInboxIdFormat u"
      and "checked_string password = Some p" and "validateApiKeyFormat p"
      and "getApiKey env p = Inr (Some apiKey)" and "\<not> truthy_str (revoked_at apiKey)"
  shows "(\<forall>t. expiry_timestamp env apiKey = Some t \<and> t < clock env \<longrightarrow>
            (\<exists>e. validateSMTPCredentials env username password = (Failure e, [GetApiKey p])
                 \<and> code e = API_KEY_EXPIRED))
       \<and> (expiry_timestamp env apiKey = None
            \<or> (\<exists>t. expiry_timestamp env apiKey = Some t \<and> \<not> t < clock env) \<longrightarrow>
            (\<forall>e. fst (validateSMTPCredentials env username password) = Failure e
                   \<longrightarrow> code e \<noteq> API_KEY_EXPIRED)
          \<and> (''smtp:send'' \<notin> set (scopes apiKey) \<longrightarrow>
               (\<exists>e. validateSMTPCredentials env username password = (Failure e, [GetApiKey p])
                    \<and> code e = INSUFFICIENT_PERMISSIONS))
          \<and> (''smtp:send'' \<in> set (scopes apiKey) \<longrightarrow>
               snd (validateSMTPCredentials env username password) = [GetApiKey p, GetInbox u]))"
proof (cases "expired env apiKey")
  case True
  then obtain t where "expiry_timestamp env apiKey = Some t" "t < clock env"
    by (auto simp add: expired_iff)
  moreover have "\<exists>e. validateSMTPCredentials env username password = (Failure e, [GetApiKey p])
                 \<and> code e = API_KEY_EXPIRED"
    using assms True by (simp add: validateSMTPCredentials_def createAuthError_def)
  ultimately show ?thesis by auto
next
  case False
  then have no: "\<not> (\<exists>t. expiry_timestamp env apiKey = Some t \<and> t < clock env)"
    by (simp add: expired_iff)
  have "(\<forall>e. fst (validateSMTPCredentials env username password) = Failure e
                   \<longrightarrow> code e \<noteq> API_KEY_EXPIRED)
          \<and> (''smtp:send'' \<notin> set (scopes apiKey) \<longrightarrow>
               (\<exists>e. validateSMTPCredentials env username password = (Failure e, [GetApiKey p])
                    \<and> code e = INSUFFICIENT_PERMISSIONS))
          \<and> (''smtp:send'' \<in> set (scopes apiKey) \<longrightarrow>
               snd (validateSMTPCredentials env username password) = [GetApiKey p, GetInbox u])"
    using assms False
    by (auto simp add: validateSMTPCredentials_def createAuthError_def
          split: sum.splits option.splits)
  with no show ?thesis by blast
qed

theorem expiry_step_witness:
  "(\<exists>e. fst (validateSMTPCredentials mock_env (JStr ''inb_valid1234567890'')
              (JStr ''am_expired12345678901234567890123456'')) = Failure e
        \<and> code e = API_KEY_EXPIRED)
   \<and> snd (validateSMTPCredentials mock_env (JStr ''inb_valid1234567890'')
              (JStr ''am_validkey12345678901234567890123456''))
       = [GetApiKey ''am_validkey12345678901234567890123456'', GetInbox ''inb_valid1234567890'']
   \<and> (\<exists>e. fst (validateSMTPCredentials mock_env (JStr ''inb_valid1234567890'')
              (JStr ''am_noscope12345678901234567890123456'')) = Failure e
        \<and> code e = INSUFFICIENT_PERMISSIONS)"
proof -
  have u: "checked_string (JStr ''inb_valid1234567890'') = Some ''inb_valid1234567890''"
          "validateInboxIdFormat ''inb_valid1234567890''"
    by code_simp+
  have p1: "checked_string (JStr ''am_expired12345678901234567890123456'')
             = Some ''am_expired12345678901234567890123456''"
          "validateApiKeyFormat ''am_expired12345678901234567890123456''"
    by code_simp+
  have p2: "checked_string (JStr ''am_validkey12345678901234567890123456'')
             = Some ''am_validkey12345678901234567890123456''"
          "validateApiKeyFormat ''am_validkey12345678901234567890123456''"
    by code_simp+
  have p3: "checked_string (JStr ''am_noscope12345678901234567890123456'')
             = Some ''am_noscope12345678901234567890123456''"
          "validateApiKeyFormat ''am_noscope12345678901234567890123456''"
    by code_simp+
  have k1: "getApiKey mock_env ''am_expired12345678901234567890123456'' =
     Inr (Some \<lparr>key_api_key_id = ''key_expired_4'', key_organization_id = ''org_abc'',
         revoked_at = None, expires_at = Some ''2024-01-01T00:00:00Z'', scopes = [''smtp:send''],
         name = ''Expired API Key'', key_created_at = ''2023-01-01T00:00:00Z''\<rparr>)"
    by code_simp
  have k2: "getApiKey mock_env ''am_validkey12345678901234567890123456'' =
     Inr (Some \<lparr>key_api_key_id = ''key_valid_1'', key_organization_id = ''org_abc'',
         revoked_at = None, expires_at = None,
         scopes = [''smtp:send'', ''messages:read'', ''messages:write''],
         name = ''Production API Key'', key_created_at = ''2024-01-01T00:00:00Z''\<rparr>)"
    by code_simp
  have k3: "getApiKey mock_env ''am_noscope12345678901234567890123456'' =
     Inr (Some \<lparr>key_api_key_id = ''key_noscope_5'', key_organization_id = ''org_abc'',
         revoked_at = None, expires_at = None, scopes = [''messages:read''],
         name = ''Read-Only API Key'', key_created_at = ''2024-01-01T00:00:00Z''\<rparr>)"
    by code_simp
  have e1: "parseDate mock_env ''2024-01-01T00:00:00Z'' = Some 1704067200000"
    "clock mock_env = 1793577600000"
    by (simp_all add: mock_env_def)
  show ?thesis
    using expiry_step [OF u p1 k1] expiry_step [OF u p2 k2] expiry_step [OF u p3 k3] e1
    by (auto simp add: expiry_timestamp_def)
qed

section \<open>Commands out of sequence\<close>

text \<open>
  Claim C3, as the code has it: for every session and every command (AUTH, MAIL, RCPT,
  DATA) that is not legal in the session's state, the hook answers 503 5.5.1
  ``Bad sequence of commands'' and leaves the session as it was but for its
  last-activity time, which is set to the time of the command; for MAIL this is so when
  the session is authenticated, and a session that is not is answered 530 5.7.0
  ``Authentication required'', in any state, again with only the last-activity time
  changed. The manager's own methods, when the state has no transition for the command,
  return \<^verbatim>\<open>null\<close> and change nothing at all.

  (The claim said that no field changes, the last-activity time included. Every hook
  calls \<open>updateActivity\<close> before it looks at the state.)
\<close>

theorem illegal_command_touches_only_activity:
  assumes "m sessionId = Some s"
  shows "(\<not> canExecuteCommandInState (state s) ''AUTH'' \<longrightarrow>
            onAuth env auth sessionId now later m =
              (m(sessionId \<mapsto> touched now s),
               Inl (createSMTPError 503 ''5.5.1'' ''Bad sequence of commands'')))
       \<and> (authenticated s \<and> \<not> canExecuteCommandInState (state s) ''MAIL'' \<longrightarrow>
            onMailFrom sessionId sender now m =
              (m(sessionId \<mapsto> touched now s),
               Some (createSMTPError 503 ''5.5.1'' ''Bad sequence of commands'')))
       \<and> (\<not> authenticated s \<longrightarrow>
            onMailFrom sessionId sender now m =
              (m(sessionId \<mapsto> touched now s),
               Some (createSMTPError 530 ''5.7.0'' ''Authentication required'')))
       \<and> (\<not> canExecuteCommandInState (state s) ''RCPT'' \<longrightarrow>
            onRcptTo sessionId recipient now m =
              (m(sessionId \<mapsto> touched now s),
               Some (createSMTPError 503 ''5.5.1'' ''Bad sequence of commands'')))
       \<and> (\<not> canExecuteCommandInState (state s) ''DATA'' \<longrightarrow>
            onData process sessionId now later m =
              (m(sessionId \<mapsto> touched now s),
               Inl (createSMTPError 503 ''5.5.1'' ''Bad sequence of commands'')))
       \<and> (getNextState (state s) ''EHLO'' = None \<longrightarrow>
            handleHello sessionId hostname now m = (m, None))
       \<and> (getNextState (state s) ''AUTH'' = None \<longrightarrow>
            handleAuthentication sessionId usr now m = (m, None))
       \<and> (getNextState (state s) ''MAIL'' = None \<longrightarrow>
            handleMailFrom sessionId sender now m = (m, None))
       \<and> (getNextState (state s) ''RCPT'' = None \<longrightarrow>
            handleRcptTo sessionId recipient now m = (m, None))
       \<and> (getNextState (state s) ''DATA'' = None \<longrightarrow>
            handleDataStart sessionId now m = (m, None))
       \<and> (getNextState (state s) ''DATA_COMPLETE'' = None \<longrightarrow>
            handleDataComplete sessionId msgId now m = (m, None))"
proof -
  have auth: "\<not> canExecuteCommandInState (state s) ''AUTH'' \<longrightarrow>
            onAuth env auth sessionId now later m =
              (m(sessionId \<mapsto> touched now s),
               Inl (createSMTPError 503 ''5.5.1'' ''Bad sequence of commands''))"
    using assms
    by (simp add: onAuth_def getSession_def updateActivity_eq canExecuteCommand_upd
          BAD_SEQUENCE_def)
  have mail: "authenticated s \<and> \<not> canExecuteCommandInState (state s) ''MAIL'' \<longrightarrow>
            onMailFrom sessionId sender now m =
              (m(sessionId \<mapsto> touched now s),
               Some (createSMTPError 503 ''5.5.1'' ''Bad sequence of commands''))"
    using assms
    by (auto simp add: onMailFrom_def getSession_def updateActivity_eq canExecuteCommand_upd
          BAD_SEQUENCE_def canExecuteCommandInState_simps)
  have unauth: "\<not> authenticated s \<longrightarrow>
            onMailFrom sessionId sender now m =
              (m(sessionId \<mapsto> touched now s),
               Some (createSMTPError 530 ''5.7.0'' ''Authentication required''))"
    using assms
    by (simp add: onMailFrom_def getSession_def updateActivity_eq AUTH_REQUIRED_def)
  have rcpt: "\<not> canExecuteCommandInState (state s) ''RCPT'' \<longrightarrow>
            onRcptTo sessionId recipient now m =
              (m(sessionId \<mapsto> touched now s),
               Some (createSMTPError 503 ''5.5.1'' ''Bad sequence of commands''))"
    using assms
    by (simp add: onRcptTo_def getSession_def updateActivity_eq canExecuteCommand_upd
          BAD_SEQUENCE_def)
  have data: "\<not> canExecuteCommandInState (state s) ''DATA'' \<longrightarrow>
            onData process sessionId now later m =
              (m(sessionId \<mapsto> touched now s),
               Inl (createSMTPError 503 ''5.5.1'' ''Bad sequence of commands''))"
    using assms
    by (simp add: onData_def getSession_def updateActivity_eq canExecuteCommand_upd
          BAD_SEQUENCE_def)
  have mgr:
    "getNextState (state s) ''EHLO'' = None \<longrightarrow> handleHello sessionId hostname now m = (m, None)"
    "getNextState (state s) ''AUTH'' = None \<longrightarrow>
       handleAuthentication sessionId usr now m = (m, None)"
    "getNextState (state s) ''MAIL'' = None \<longrightarrow> handleMailFrom sessionId sender now m = (m, None)"
    "getNextState (state s) ''RCPT'' = None \<longrightarrow> handleRcptTo sessionId recipient now m = (m, None)"
    "getNextState (state s) ''DATA'' = None \<longrightarrow> handleDataStart sessionId now m = (m, None)"
    "getNextState (state s) ''DATA_COMPLETE'' = None \<longrightarrow>
       handleDataComplete sessionId msgId now m = (m, None)"
    using assms
    by (simp_all add: handleHello_def handleAuthentication_def handleMailFrom_def
          handleRcptTo_def handleDataStart_def handleDataComplete_def getSession_def)
  from auth mail unauth rcpt data mgr show ?thesis by blast
qed

theorem illegal_command_touches_only_activity_witness:
  "snd (onAuth mock_env \<lparr>auth_method = ''PLAIN'', auth_username = Some ''inb_valid1234567890'',
                          auth_password = Some ''am_validkey12345678901234567890123456''\<rparr>
          ''s1'' 70 80 (run ops_to_mail_from Map.empty))
     = Inl (createSMTPError 503 ''5.5.1'' ''Bad sequence of commands'')
   \<and> snd (onMailFrom ''s1'' ''test@agentmail.dev'' 70 (run ops_to_mail_from Map.empty))
     = Some (createSMTPError 503 ''5.5.1'' ''Bad sequence of commands'')
   \<and> snd (onData (\<lambda>m sessionId. Inr ''msg_2'') ''s1'' 70 80 (run ops_to_mail_from Map.empty))
     = Inl (createSMTPError 503 ''5.5.1'' ''Bad sequence of commands'')
   \<and> snd (onRcptTo ''s1'' ''to@example.com'' 15 (onConnect ''s1'' local_conn 10 Map.empty))
     = Some (createSMTPError 503 ''5.5.1'' ''Bad sequence of commands'')
   \<and> snd (onMailFrom ''s1'' ''test@agentmail.dev'' 15 (onConnect ''s1'' local_conn 10 Map.empty))
     = Some (createSMTPError 530 ''5.7.0'' ''Authentication required'')
   \<and> handleHello ''s1'' None 70 (run ops_to_mail_from Map.empty)
     = (run ops_to_mail_from Map.empty, None)"
proof -
  have "map_option state (run ops_to_mail_from Map.empty ''s1'') = Some MAIL_FROM"
       "map_option authenticated (run ops_to_mail_from Map.empty ''s1'') = Some True"
    by code_simp+
  then obtain s where s: "run ops_to_mail_from Map.empty ''s1'' = Some s"
      "state s = MAIL_FROM" "authenticated s" by auto
  have "map_option state (onConnect ''s1'' local_conn 10 Map.empty ''s1'') = Some HELLO"
       "map_option authenticated (onConnect ''s1'' local_conn 10 Map.empty ''s1'') = Some False"
    by code_simp+
  then obtain t where t: "onConnect ''s1'' local_conn 10 Map.empty ''s1'' = Some t"
      "state t = HELLO" "\<not> authenticated t" by auto
  show ?thesis
    using illegal_command_touches_only_activity
            [where m = "run ops_to_mail_from Map.empty" and sessionId = "''s1''" and s = s
               and env = mock_env and now = 70 and later = 80
               and auth = "\<lparr>auth_method = ''PLAIN'', auth_username = Some ''inb_valid1234567890'',
                          auth_password = Some ''am_validkey12345678901234567890123456''\<rparr>"
               and usr = valid_user and msgId = "''msg_2''"
               and sender = "''test@agentmail.dev''" and recipient = "''to@example.com''"
               and process = "\<lambda>m sessionId. Inr ''msg_2''" and hostname = None, OF s(1)]
          illegal_command_touches_only_activity
            [where m = "onConnect ''s1'' local_conn 10 Map.empty" and sessionId = "''s1''"
               and s = t and now = 15 and later = 15 and env = mock_env
               and auth = "\<lparr>auth_method = ''PLAIN'', auth_username = Some ''inb_valid1234567890'',
                          auth_password = Some ''am_validkey12345678901234567890123456''\<rparr>"
               and usr = valid_user and msgId = "''msg_2''" and hostname = None
               and process = "\<lambda>m sessionId. Inr ''msg_2''"
               and sender = "''test@agentmail.dev''" and recipient = "''to@example.com''", OF t(1)]
          s(2,3) t(2,3)
    by (simp add: canExecuteCommandInState_simps getNextState_simps)
qed

text \<open>
  The claim as it was stated fails for an authenticated session in \<open>MAIL_FROM\<close> that is
  sent a second MAIL at time 70: the answer is the sequencing failure, and the session's
  last-activity time has gone from 30 to 70.
\<close>

theorem rejected_command_changes_session:
  "map_option state (run ops_to_mail_from Map.empty ''s1'') = Some MAIL_FROM
   \<and> \<not> canExecuteCommandInState MAIL_FROM ''MAIL''
   \<and> map_option errorText
         (snd (onMailFrom ''s1'' ''test@agentmail.dev'' 70 (run ops_to_mail_from Map.empty)))
       = Some ''503 5.5.1 Bad sequence of commands''
   \<and> map_option (lastActivityAt \<circ> timestamps) (run ops_to_mail_from Map.empty ''s1'') = Some 30
   \<and> map_option (lastActivityAt \<circ> timestamps)
         (fst (onMailFrom ''s1'' ''test@agentmail.dev'' 70 (run ops_to_mail_from Map.empty)) ''s1'')
       = Some 70
   \<and> fst (onMailFrom ''s1'' ''test@agentmail.dev'' 70 (run ops_to_mail_from Map.empty)) ''s1''
       \<noteq> run ops_to_mail_from Map.empty ''s1''"
  by code_simp

section \<open>Recipients\<close>

text \<open>
  Claim C4: for a session in \<open>RCPT_TO\<close> with fewer than \<open>MAX_RECIPIENTS\<close> (50) recipients,
  one more call of the recipient handler appends the recipient, pushes no transition and
  leaves the state \<open>RCPT_TO\<close>; with \<open>MAX_RECIPIENTS\<close> recipients already there the call
  fails, and the hook answers 452 4.5.3 ``Too many recipients'', which is not the answer
  503 5.5.1 to a command out of sequence.
\<close>

theorem rcptTo_appends_up_to_limit:
  assumes "m sessionId = Some s" and "state s = RCPT_TO"
  shows "(length (rcptTo s) < MAX_RECIPIENTS \<longrightarrow>
           (\<exists>s'. s' = s\<lparr>rcptTo := rcptTo s @ [\<lparr>address = recipient, addedAt = now\<rparr>],
                        timestamps := (timestamps s)\<lparr>lastActivityAt := now\<rparr>\<rparr>
               \<and> handleRcptTo sessionId recipient now m = (m(sessionId \<mapsto> s'), Some s')
               \<and> onRcptTo sessionId recipient now m = (m(sessionId \<mapsto> s'), None)
               \<and> rcptTo s' = rcptTo s @ [\<lparr>address = recipient, addedAt = now\<rparr>]
               \<and> stateHistory s' = stateHistory s
               \<and> state s' = RCPT_TO))
       \<and> (length (rcptTo s) \<ge> MAX_RECIPIENTS \<longrightarrow>
             handleRcptTo sessionId recipient now m = (m, None)
           \<and> onRcptTo sessionId recipient now m =
               (m(sessionId \<mapsto> touched now s),
                Some (createSMTPError 452 ''4.5.3'' ''Too many recipients''))
           \<and> errorText (createSMTPError 452 ''4.5.3'' ''Too many recipients'')
               = ''452 4.5.3 Too many recipients''
           \<and> createSMTPError 452 ''4.5.3'' ''Too many recipients''
               \<noteq> createSMTPError 503 ''5.5.1'' ''Bad sequence of commands'')"
proof -
  have shown: "errorText (createSMTPError 452 ''4.5.3'' ''Too many recipients'')
               = ''452 4.5.3 Too many recipients''"
    by code_simp
  have ne: "createSMTPError 452 ''4.5.3'' ''Too many recipients''
               \<noteq> createSMTPError 503 ''5.5.1'' ''Bad sequence of commands''"
    by (simp add: createSMTPError_def)
  have a: "length (rcptTo s) < MAX_RECIPIENTS \<Longrightarrow>
      handleRcptTo sessionId recipient now m =
        (m(sessionId \<mapsto> s\<lparr>rcptTo := rcptTo s @ [\<lparr>address = recipient, addedAt = now\<rparr>],
                        timestamps := (timestamps s)\<lparr>lastActivityAt := now\<rparr>\<rparr>),
         Some (s\<lparr>rcptTo := rcptTo s @ [\<lparr>address = recipient, addedAt = now\<rparr>],
                        timestamps := (timestamps s)\<lparr>lastActivityAt := now\<rparr>\<rparr>))"
    using assms by (simp add: handleRcptTo_def getSession_def getNextState_simps Let_def)
  have a': "length (rcptTo s) < MAX_RECIPIENTS \<Longrightarrow>
      onRcptTo sessionId recipient now m =
        (m(sessionId \<mapsto> s\<lparr>rcptTo := rcptTo s @ [\<lparr>address = recipient, addedAt = now\<rparr>],
                        timestamps := (timestamps s)\<lparr>lastActivityAt := now\<rparr>\<rparr>), None)"
    using assms
    by (simp add: onRcptTo_def handleRcptTo_def getSession_def getNextState_simps Let_def
          updateActivity_eq canExecuteCommand_upd canExecuteCommandInState_simps touched_def)
  have b: "length (rcptTo s) \<ge> MAX_RECIPIENTS \<Longrightarrow>
      handleRcptTo sessionId recipient now m = (m, None)"
    using assms by (simp add: handleRcptTo_def getSession_def)
  have b': "length (rcptTo s) \<ge> MAX_RECIPIENTS \<Longrightarrow> onRcptTo sessionId recipient now m =
               (m(sessionId \<mapsto> touched now s),
                Some (createSMTPError 452 ''4.5.3'' ''Too many recipients''))"
    using assms
    by (simp add: onRcptTo_def handleRcptTo_def getSession_def updateActivity_eq
          canExecuteCommand_upd canExecuteCommandInState_simps MAX_RECIPIENTS_def
          INSUFFICIENT_STORAGE_def)
  from a a' b b' shown ne assms(2) show ?thesis by simp
qed

theorem rcptTo_appends_up_to_limit_witness:
  "snd (onRcptTo ''s1'' ''cc@example.com'' 45 (run ops_to_rcpt_to Map.empty)) = None
   \<and> map_option (map address \<circ> rcptTo)
        (fst (onRcptTo ''s1'' ''cc@example.com'' 45 (run ops_to_rcpt_to Map.empty)) ''s1'')
       = Some [''to@example.com'', ''cc@example.com'']
   \<and> map_option (length \<circ> stateHistory)
        (fst (onRcptTo ''s1'' ''cc@example.com'' 45 (run ops_to_rcpt_to Map.empty)) ''s1'')
       = map_option (length \<circ> stateHistory) (run ops_to_rcpt_to Map.empty ''s1'')
   \<and> snd (onRcptTo ''s1'' ''cc@example.com'' 45 (run ops_fifty_recipients Map.empty))
       = Some (createSMTPError 452 ''4.5.3'' ''Too many recipients'')"
proof -
  have "map_option state (run ops_to_rcpt_to Map.empty ''s1'') = Some RCPT_TO"
       "map_option (map address \<circ> rcptTo) (run ops_to_rcpt_to Map.empty ''s1'')
          = Some [''to@example.com'']"
    by code_simp+
  then obtain s where s: "run ops_to_rcpt_to Map.empty ''s1'' = Some s"
      "state s = RCPT_TO" "map address (rcptTo s) = [''to@example.com'']" by auto
  from s(3) have len: "length (rcptTo s) < MAX_RECIPIENTS"
    using length_map [of address "rcptTo s"] by (simp add: MAX_RECIPIENTS_def)
  have "map_option state (run ops_fifty_recipients Map.empty ''s1'') = Some RCPT_TO"
       "map_option (length \<circ> rcptTo) (run ops_fifty_recipients Map.empty ''s1'') = Some 50"
    by code_simp+
  then obtain f where f: "run ops_fifty_recipients Map.empty ''s1'' = Some f"
      "state f = RCPT_TO" "length (rcptTo f) = 50" by auto
  from f(3) have full: "length (rcptTo f) \<ge> MAX_RECIPIENTS" by (simp add: MAX_RECIPIENTS_def)
  show ?thesis
    using rcptTo_appends_up_to_limit
            [where m = "run ops_to_rcpt_to Map.empty" and sessionId = "''s1''" and s = s
               and recipient = "''cc@example.com''" and now = 45, OF s(1,2)]
          rcptTo_appends_up_to_limit
            [where m = "run ops_fifty_recipients Map.empty" and sessionId = "''s1''" and s = f
               and recipient = "''cc@example.com''" and now = 45, OF f(1,2)]
          len full s
    by (auto simp add: o_def)
qed

section \<open>A second message on one connection\<close>

text \<open>
  Claim C5, as the code has it: for every authenticated session in \<open>COMPLETED\<close>, a new
  sender command is accepted and moves the session to \<open>MAIL_FROM\<close> with the new sender
  stored, the recipient list empty, the message data and the message identifier cleared,
  the data-started and completed timestamps cleared and the sender timestamp set to the
  time of the command; the user, the authenticated flag, the connection metadata, the
  created and authenticated timestamps and the message counter are unchanged.

  (The claim said that the transaction timestamps are cleared. \<open>resetForNewMessage\<close>
  clears the three of them, and \<open>handleMailFrom\<close>, which the hook calls next, sets the
  sender timestamp again.)
\<close>

theorem new_sender_after_completed:
  assumes "m sessionId = Some s" and "state s = COMPLETED" and "authenticated s"
  shows "\<exists>s'. onMailFrom sessionId sender now m = (m(sessionId \<mapsto> s'), None)
            \<and> state s' = MAIL_FROM
            \<and> mailFrom s' = Some sender
            \<and> rcptTo s' = []
            \<and> messageData s' = None
            \<and> messageId s' = None
            \<and> mailFromAt (timestamps s') = Some now
            \<and> dataStartedAt (timestamps s') = None
            \<and> completedAt (timestamps s') = None
            \<and> user s' = user s
            \<and> authenticated s' = authenticated s
            \<and> connection s' = connection s
            \<and> createdAt (timestamps s') = createdAt (timestamps s)
            \<and> authenticatedAt (timestamps s') = authenticatedAt (timestamps s)
            \<and> messageCount s' = messageCount s"
  unfolding onMailFrom_completed [of m sessionId s sender now, OF assms]
  by (rule exI [of _ "s\<lparr>mailFrom := Some sender, rcptTo := [], messageData := None,
                messageId := None,
                stateHistory := stateHistory s @
                  [\<lparr>from_state = COMPLETED, to_state = AUTHENTICATED,
                    timestamp = now, command = Some ''RESET''\<rparr>,
                   \<lparr>from_state = AUTHENTICATED, to_state = MAIL_FROM,
                    timestamp = now, command = Some ''MAIL''\<rparr>],
                state := MAIL_FROM,
                timestamps := (timestamps s)
                  \<lparr>dataStartedAt := None, completedAt := None,
                   mailFromAt := Some now, lastActivityAt := now\<rparr>\<rparr>"]) simp

theorem new_sender_after_completed_witness:
  "snd (onMailFrom ''s1'' ''test@agentmail.dev'' 70 (run ops_to_completed Map.empty)) = None
   \<and> map_option state
        (fst (onMailFrom ''s1'' ''test@agentmail.dev'' 70 (run ops_to_completed Map.empty)) ''s1'')
       = Some MAIL_FROM
   \<and> map_option rcptTo
        (fst (onMailFrom ''s1'' ''test@agentmail.dev'' 70 (run ops_to_completed Map.empty)) ''s1'')
       = Some []"
proof -
  have "map_option state (run ops_to_completed Map.empty ''s1'') = Some COMPLETED"
       "map_option authenticated (run ops_to_completed Map.empty ''s1'') = Some True"
    by code_simp+
  then obtain s where s: "run ops_to_completed Map.empty ''s1'' = Some s"
      "state s = COMPLETED" "authenticated s" by auto
  from new_sender_after_completed
         [where m = "run ops_to_completed Map.empty" and sessionId = "''s1''" and s = s
            and sender = "''test@agentmail.dev''" and now = 70, OF s]
  show ?thesis by auto
qed

text \<open>
  The claim as it was stated fails for the session that has completed one message at
  time 60 and is sent a new sender at time 70: afterwards its sender timestamp is 70, not
  cleared.
\<close>

theorem sender_timestamp_not_cleared:
  "map_option state (run ops_to_completed Map.empty ''s1'') = Some COMPLETED
   \<and> map_option authenticated (run ops_to_completed Map.empty ''s1'') = Some True
   \<and> snd (onMailFrom ''s1'' ''test@agentmail.dev'' 70 (run ops_to_completed Map.empty)) = None
   \<and> map_option (mailFromAt \<circ> timestamps)
        (fst (onMailFrom ''s1'' ''test@agentmail.dev'' 70 (run ops_to_completed Map.empty)) ''s1'')
       = Some (Some 70)"
  by code_simp

section \<open>Invariants of the sessions of a manager\<close>

text \<open>
  Claim C8: in every session that a sequence of the manager's methods, run from a manager
  with no sessions, leaves in the map, the authenticated flag is true if and only if the
  user is present.
\<close>

theorem authenticated_iff_user:
  "run ops Map.empty sessionId = Some session
     \<Longrightarrow> authenticated session = (user session \<noteq> None)"
  using run_auth [of Map.empty ops] by (auto simp: ran_def auth_consistent_def)

theorem authenticated_iff_user_witness:
  "map_option authenticated (run ops_to_completed Map.empty ''s1'') = Some True
   \<and> map_option (\<lambda>s. user s \<noteq> None) (run ops_to_completed Map.empty ''s1'') = Some True"
proof -
  have a: "map_option authenticated (run ops_to_completed Map.empty ''s1'') = Some True"
    by code_simp
  then obtain session where r: "run ops_to_completed Map.empty ''s1'' = Some session" by blast
  from authenticated_iff_user [OF r] show ?thesis using a r by simp
qed

text \<open>
  Claim C9, as the code has it: when the clock values that the successive method calls
  read never decrease, the timestamps of every session's transition history never
  decrease either: each entry's timestamp is at least that of the entry before it.

  (The claim said strictly greater. A timestamp is the millisecond at which the entry is
  pushed, and nothing keeps two entries out of the same millisecond.)
\<close>

theorem history_times_sorted:
  assumes "sorted (map snd ops)" and "run ops Map.empty sessionId = Some session"
  shows "sorted (history_times session)"
proof (cases ops)
  case Nil
  with assms(2) show ?thesis by simp
next
  case (Cons a rest)
  have "bounded (snd a) Map.empty" by (simp add: bounded_def)
  moreover have "\<forall>x \<in> set (map snd ops). snd a \<le> x" using assms(1) Cons by auto
  ultimately obtain t' where "bounded t' (run ops Map.empty)"
    using run_bounded [OF _ assms(1)] by blast
  with assms(2) show ?thesis by (auto simp add: bounded_def ran_def)
qed

theorem history_times_sorted_witness:
  "sorted (map snd ops_to_completed) \<and>
   map_option (sorted \<circ> history_times) (run ops_to_completed Map.empty ''s1'') = Some True"
proof -
  have s: "sorted (map snd ops_to_completed)" by code_simp
  have "run ops_to_completed Map.empty ''s1'' \<noteq> None" by code_simp
  then obtain session where r: "run ops_to_completed Map.empty ''s1'' = Some session" by blast
  from history_times_sorted [OF s r] show ?thesis using s r by simp
qed

text \<open>
  The claim as it was stated fails for the second message of a connection: \<open>onMailFrom\<close>
  calls \<open>updateActivity\<close>, \<open>resetForNewMessage\<close> and \<open>handleMailFrom\<close> one after the other,
  the last two push one entry each, and both entries carry the time 70.
\<close>

theorem history_times_not_strict:
  "sorted (map snd ops_second_mail)
   \<and> map_option history_times (run ops_second_mail Map.empty ''s1'')
       = Some [10, 20, 30, 40, 50, 60, 70, 70]
   \<and> map_option (sorted_wrt (<) \<circ> history_times) (run ops_second_mail Map.empty ''s1'')
       = Some False
   \<and> fst (onMailFrom ''s1'' ''test@agentmail.dev'' 70 (run ops_to_completed Map.empty)) ''s1''
       = run ops_second_mail Map.empty ''s1''"
  by code_simp

section \<open>HTTP status to SMTP reply\<close>

text \<open>
  Claim C10: for every HTTP status \<open>h\<close> from 400 to 499 other than 429, \<open>mapHttpToSmtp h\<close>
  has an SMTP code from 500 to 599 and is not retryable; for every \<open>h\<close> from 500 up it has
  an SMTP code from 400 to 499 and is retryable; for 429 it has the code 450 and is
  retryable; and for every such \<open>h\<close>, \<open>isRetryableHttpStatus h\<close> is the retryable flag of
  \<open>mapHttpToSmtp h\<close>.
\<close>

theorem mapHttpToSmtp_families:
  "(400 \<le> h \<and> h < 500 \<and> h \<noteq> 429 \<longrightarrow>
      500 \<le> smtpCode (mapHttpToSmtp h) \<and> smtpCode (mapHttpToSmtp h) \<le> 599
      \<and> \<not> retryable (mapHttpToSmtp h))
   \<and> (500 \<le> h \<longrightarrow>
      400 \<le> smtpCode (mapHttpToSmtp h) \<and> smtpCode (mapHttpToSmtp h) \<le> 499
      \<and> retryable (mapHttpToSmtp h))
   \<and> smtpCode (mapHttpToSmtp 429) = 450 \<and> retryable (mapHttpToSmtp 429)
   \<and> (400 \<le> h \<longrightarrow> isRetryableHttpStatus h = retryable (mapHttpToSmtp h))"
  by (simp add: mapHttpToSmtp_def isRetryableHttpStatus_def HTTP_TO_SMTP_MAPPINGS_def)

theorem mapHttpToSmtp_families_witness:
  "smtpCode (mapHttpToSmtp 404) \<in> {500..599} \<and> \<not> retryable (mapHttpToSmtp 404)
   \<and> smtpCode (mapHttpToSmtp 418) \<in> {500..599} \<and> \<not> isRetryableHttpStatus 418
   \<and> smtpCode (mapHttpToSmtp 503) \<in> {400..499} \<and> retryable (mapHttpToSmtp 503)
   \<and> smtpCode (mapHttpToSmtp 599) \<in> {400..499} \<and> isRetryableHttpStatus 599"
  using mapHttpToSmtp_families [of 404] mapHttpToSmtp_families [of 418]
        mapHttpToSmtp_families [of 503] mapHttpToSmtp_families [of 599]
  by simp

end
